theory Spec2Isabelle
  imports Complex_Main "HOL-Library.Sublist" "HOL-Library.Char_ord" "HOL-Library.List_Lexorder"
    "HOL-Library.Product_Lexorder"
begin

section \<open>Python values\<close>

text \<open>
  The ingestion pipeline of \<^verbatim>\<open>light.py\<close> works on the decoded JSON payload of the
  lightning API. A decoded payload is any JSON value; a JSON object is a Python dict,
  kept here as an association list that is read through \<open>map_of\<close> (one binding per key).
  A Python float is a finite value, an infinity or a NaN; the finite values are kept as
  rationals, which is exact for comparisons between floats.
\<close>

datatype pyfloat = Finite rat | PosInf | NegInf | NaN

datatype json =
    JNull
  | JBool bool
  | JInt int
  | JFloat pyfloat
  | JStr string
  | JList "json list"
  | JDict "(string \<times> json) list"

text \<open>
  Exceptions are values. \<open>MySQLError\<close> stands for \<^verbatim>\<open>mysql.connector.Error\<close> and its
  subclasses, the only class the \<^verbatim>\<open>except\<close> clauses of the source catch.
\<close>

datatype py_error = TypeError | KeyError | ValueError | OverflowError | MySQLError

record datetime =
  year :: nat
  month :: nat
  day :: nat
  hour :: nat
  minute :: nat
  second :: nat

text \<open>The seven values bound to the placeholders of the INSERT statement, in order.\<close>

record params =
  p_latitude :: pyfloat
  p_longitude :: pyfloat
  p_time :: datetime
  p_flash_type :: json
  p_peak_current :: pyfloat
  p_ic_height :: pyfloat
  p_number_of_sensors :: int

text \<open>
  A row of a shard table, with the columns of \<^verbatim>\<open>create_new_table\<close>. The
  auto-increment column \<^verbatim>\<open>id\<close> is left out: nothing in the pipeline reads it.
\<close>

record row =
  latitude :: rat
  longitude :: rat
  time :: datetime
  flash_type :: string
  peak_current :: rat
  ic_height :: rat
  number_of_sensors :: int

text \<open>
  The library functions the source calls are parameters of the model: the builtins
  \<^verbatim>\<open>float\<close> and \<^verbatim>\<open>int\<close>, \<^verbatim>\<open>datetime.strptime\<close> with the format
  \<^verbatim>\<open>'%Y-%m-%d %H:%M:%S'\<close>, and the conversion of the bound parameters to the column
  types of the table by the connector and the server (\<open>None\<close>: the statement raises).
  Every theorem below holds for each behaviour of these functions.
\<close>

record extern =
  py_float :: "json \<Rightarrow> py_error + pyfloat"
  py_int :: "json \<Rightarrow> py_error + int"
  py_strptime :: "json \<Rightarrow> py_error + datetime"
  sql_row :: "params \<Rightarrow> row option"

text \<open>Truth value of a decoded JSON value (\<^verbatim>\<open>not records\<close>).\<close>

fun truthy :: "json \<Rightarrow> bool" where
  "truthy JNull = False"
| "truthy (JBool b) = b"
| "truthy (JInt i) = (i \<noteq> 0)"
| "truthy (JFloat x) = (x \<noteq> Finite 0)"
| "truthy (JStr s) = (s \<noteq> [])"
| "truthy (JList xs) = (xs \<noteq> [])"
| "truthy (JDict kvs) = (kvs \<noteq> [])"

text \<open>
  \<^verbatim>\<open>key in obj\<close> for a string key: key membership in a dict, element membership in a
  list, substring test in a string, \<^verbatim>\<open>TypeError\<close> for a value that is not a container.
\<close>

fun py_contains :: "string \<Rightarrow> json \<Rightarrow> py_error + bool" where
  "py_contains k (JDict kvs) = Inr (k \<in> set (map fst kvs))"
| "py_contains k (JList xs) = Inr (JStr k \<in> set xs)"
| "py_contains k (JStr s) = Inr (sublist k s)"
| "py_contains k JNull = Inl TypeError"
| "py_contains k (JBool b) = Inl TypeError"
| "py_contains k (JInt i) = Inl TypeError"
| "py_contains k (JFloat x) = Inl TypeError"

text \<open>
  \<^verbatim>\<open>obj[key]\<close> for a string key: the value of a dict or \<^verbatim>\<open>KeyError\<close>; lists and
  strings take integer indices only and every other value is not subscriptable.
\<close>

fun py_getitem :: "json \<Rightarrow> string \<Rightarrow> py_error + json" where
  "py_getitem (JDict kvs) k = (case map_of kvs k of None \<Rightarrow> Inl KeyError | Some v \<Rightarrow> Inr v)"
| "py_getitem JNull k = Inl TypeError"
| "py_getitem (JBool b) k = Inl TypeError"
| "py_getitem (JInt i) k = Inl TypeError"
| "py_getitem (JFloat x) k = Inl TypeError"
| "py_getitem (JStr s) k = Inl TypeError"
| "py_getitem (JList xs) k = Inl TypeError"

text \<open>
  \<^verbatim>\<open>for record in obj\<close>: the elements of a list, the keys of a dict, the characters
  of a string.
\<close>

fun py_iter :: "json \<Rightarrow> py_error + json list" where
  "py_iter (JList xs) = Inr xs"
| "py_iter (JDict kvs) = Inr (map (\<lambda>kv. JStr (fst kv)) kvs)"
| "py_iter (JStr s) = Inr (map (\<lambda>c. JStr [c]) s)"
| "py_iter JNull = Inl TypeError"
| "py_iter (JBool b) = Inl TypeError"
| "py_iter (JInt i) = Inl TypeError"
| "py_iter (JFloat x) = Inl TypeError"

text \<open>\<^verbatim>\<open>a <= b\<close> on floats: false as soon as a NaN is involved.\<close>

fun float_le :: "pyfloat \<Rightarrow> pyfloat \<Rightarrow> bool" where
  "float_le NaN y = False"
| "float_le x NaN = False"
| "float_le NegInf y = True"
| "float_le x PosInf = True"
| "float_le PosInf y = False"
| "float_le x NegInf = False"
| "float_le (Finite a) (Finite b) = (a \<le> b)"

section \<open>Record Filter\<close>

definition min_lat :: pyfloat where "min_lat = Finite 24"
definition max_lat :: pyfloat where "max_lat = Finite 28"
definition min_lon :: pyfloat where "min_lon = Finite 77"
definition max_lon :: pyfloat where "max_lon = Finite 84"

text \<open>
  The condition of the list comprehension of \<^verbatim>\<open>filter_up_data\<close>,
  \<^verbatim>\<open>min_lat <= float(record['latitude']) <= max_lat and min_lon <= float(record['longitude']) <= max_lon\<close>.
  Python evaluates it from left to right and stops at the first comparison that is
  false, so the longitude is read and converted only when the latitude is in range.
\<close>

definition in_up :: "extern \<Rightarrow> json \<Rightarrow> py_error + bool" where
  "in_up E record =
     (case py_getitem record ''latitude'' of
        Inl e \<Rightarrow> Inl e
      | Inr v \<Rightarrow>
          (case py_float E v of
             Inl e \<Rightarrow> Inl e
           | Inr la \<Rightarrow>
               if float_le min_lat la \<and> float_le la max_lat then
                 (case py_getitem record ''longitude'' of
                    Inl e \<Rightarrow> Inl e
                  | Inr u \<Rightarrow>
                      (case py_float E u of
                         Inl e \<Rightarrow> Inl e
                       | Inr lo \<Rightarrow> Inr (float_le min_lon lo \<and> float_le lo max_lon)))
               else Inr False))"

text \<open>The list comprehension: the first record whose condition raises ends it.\<close>

fun keep_up :: "extern \<Rightarrow> json list \<Rightarrow> py_error + json list" where
  "keep_up E [] = Inr []"
| "keep_up E (record # rest) =
     (case in_up E record of
        Inl e \<Rightarrow> Inl e
      | Inr b \<Rightarrow>
          (case keep_up E rest of
             Inl e \<Rightarrow> Inl e
           | Inr out \<Rightarrow> Inr (if b then record # out else out)))"

definition filter_up_data :: "extern \<Rightarrow> json \<Rightarrow> py_error + json list" where
  "filter_up_data E records =
     (if \<not> truthy records then Inr []
      else case py_contains ''lightning_data'' records of
        Inl e \<Rightarrow> Inl e
      | Inr False \<Rightarrow> Inr []
      | Inr True \<Rightarrow>
          (case py_getitem records ''lightning_data'' of
             Inl e \<Rightarrow> Inl e
           | Inr ld \<Rightarrow>
               (case py_contains ''10min_record'' ld of
                  Inl e \<Rightarrow> Inl e
                | Inr False \<Rightarrow> Inr []
                | Inr True \<Rightarrow>
                    (case py_getitem ld ''10min_record'' of
                       Inl e \<Rightarrow> Inl e
                     | Inr recs \<Rightarrow>
                         (case py_iter recs of
                            Inl e \<Rightarrow> Inl e
                          | Inr items \<Rightarrow> keep_up E items)))))"

text \<open>
  The contract of the Record Filter in the words of the specification, to compare with
  the code: a coordinate of a record is the float read from its field, when there is one,
  and a record is within the bounding box when both coordinates are read and lie in the
  inclusive ranges.
\<close>

definition coordinate :: "extern \<Rightarrow> json \<Rightarrow> string \<Rightarrow> pyfloat option" where
  "coordinate E record k =
     (case py_getitem record k of
        Inl e \<Rightarrow> None
      | Inr v \<Rightarrow> (case py_float E v of Inl e \<Rightarrow> None | Inr x \<Rightarrow> Some x))"

definition within_bbox :: "extern \<Rightarrow> json \<Rightarrow> bool" where
  "within_bbox E record =
     (case coordinate E record ''latitude'' of
        None \<Rightarrow> False
      | Some la \<Rightarrow>
          (case coordinate E record ''longitude'' of
             None \<Rightarrow> False
           | Some lo \<Rightarrow>
               float_le (Finite 24) la \<and> float_le la (Finite 28) \<and>
               float_le (Finite 77) lo \<and> float_le lo (Finite 84)))"

definition readable :: "extern \<Rightarrow> json \<Rightarrow> bool" where
  "readable E record =
     (coordinate E record ''latitude'' \<noteq> None \<and> coordinate E record ''longitude'' \<noteq> None)"

section \<open>The store\<close>

text \<open>
  The MySQL database holds the shard tables, each a list of rows in insertion order. The
  tables are transactional and the connection does not commit by itself (the defaults of
  the server and of the connector): \<open>session\<close> is what the open connection sees, \<open>durable\<close>
  is what has been committed. \<open>uptime\<close> is the number of requests the server still answers
  before it becomes unreachable (\<open>None\<close>: it never fails); every request after that raises
  \<^verbatim>\<open>mysql.connector.Error\<close>. Log lines and Streamlit messages are not modelled.
\<close>

type_synonym store = "(string \<times> row list) list"

record world =
  durable :: store
  session :: store
  uptime :: "nat option"

definition request :: "world \<Rightarrow> world option" where
  "request w =
     (case uptime w of
        None \<Rightarrow> Some w
      | Some n \<Rightarrow> (case n of 0 \<Rightarrow> None | Suc m \<Rightarrow> Some (w\<lparr>uptime := Some m\<rparr>)))"

text \<open>The columns of \<^verbatim>\<open>UNIQUE KEY unique_strike (latitude, longitude, time)\<close>.\<close>

definition unique_strike :: "row \<Rightarrow> rat \<times> rat \<times> datetime" where
  "unique_strike r = (latitude r, longitude r, time r)"

text \<open>
  The SQL pattern match of \<^verbatim>\<open>LIKE\<close>: \<^verbatim>\<open>%\<close> stands for any run of characters and
  \<^verbatim>\<open>_\<close> for any single character. Characters are compared as they are.
\<close>

fun sql_like :: "string \<Rightarrow> string \<Rightarrow> bool" where
  "sql_like [] s = (s = [])"
| "sql_like (p # ps) [] = (p = CHR ''%'' \<and> sql_like ps [])"
| "sql_like (p # ps) (c # cs) =
     (if p = CHR ''%'' then sql_like ps (c # cs) \<or> sql_like (p # ps) cs
      else (p = CHR ''_'' \<or> p = c) \<and> sql_like ps cs)"

definition put_rows :: "string \<Rightarrow> row list \<Rightarrow> store \<Rightarrow> store" where
  "put_rows t rows s = map (\<lambda>(n, old). if n = t then (n, rows) else (n, old)) s"

text \<open>\<^verbatim>\<open>mysql.connector.connect\<close>: a fresh connection sees the committed tables.\<close>

definition connect_db :: "world \<Rightarrow> bool \<times> world" where
  "connect_db w =
     (case request w of
        None \<Rightarrow> (False, w)
      | Some w' \<Rightarrow> (True, w'\<lparr>session := durable w'\<rparr>))"

text \<open>\<^verbatim>\<open>conn.close()\<close>: what the connection has not committed is rolled back.\<close>

definition close :: "world \<Rightarrow> world" where
  "close w = w\<lparr>session := durable w\<rparr>"

definition commit :: "world \<Rightarrow> (py_error + unit) \<times> world" where
  "commit w =
     (case request w of
        None \<Rightarrow> (Inl MySQLError, w)
      | Some w' \<Rightarrow> (Inr (), w'\<lparr>durable := session w'\<rparr>))"

text \<open>\<^verbatim>\<open>SHOW TABLES LIKE pattern\<close>.\<close>

definition show_tables_like :: "string \<Rightarrow> world \<Rightarrow> (py_error + string list) \<times> world" where
  "show_tables_like pat w =
     (case request w of
        None \<Rightarrow> (Inl MySQLError, w)
      | Some w' \<Rightarrow> (Inr (filter (sql_like pat) (map fst (session w'))), w'))"

text \<open>\<^verbatim>\<open>SELECT COUNT(*) FROM t\<close>.\<close>

definition select_count :: "string \<Rightarrow> world \<Rightarrow> (py_error + nat) \<times> world" where
  "select_count t w =
     (case request w of
        None \<Rightarrow> (Inl MySQLError, w)
      | Some w' \<Rightarrow>
          (case map_of (session w') t of
             None \<Rightarrow> (Inl MySQLError, w')
           | Some rows \<Rightarrow> (Inr (length rows), w')))"

text \<open>
  \<^verbatim>\<open>CREATE TABLE IF NOT EXISTS t (...)\<close>. A data definition statement commits the
  transaction of the connection.
\<close>

definition create_table_if_not_exists :: "string \<Rightarrow> world \<Rightarrow> (py_error + unit) \<times> world" where
  "create_table_if_not_exists t w =
     (case request w of
        None \<Rightarrow> (Inl MySQLError, w)
      | Some w' \<Rightarrow>
          (let s = (if t \<in> set (map fst (session w')) then session w' else session w' @ [(t, [])])
           in (Inr (), w'\<lparr>durable := s, session := s\<rparr>)))"

text \<open>
  \<^verbatim>\<open>INSERT IGNORE INTO t (...) VALUES (...)\<close> with its row count: the row is appended
  unless a row of the table has the same unique key, and then nothing changes. The
  statement raises when the table does not exist or a parameter cannot be converted.
\<close>

definition insert_ignore :: "extern \<Rightarrow> string \<Rightarrow> params \<Rightarrow> world \<Rightarrow> (py_error + nat) \<times> world" where
  "insert_ignore E t p w =
     (case request w of
        None \<Rightarrow> (Inl MySQLError, w)
      | Some w' \<Rightarrow>
          (case map_of (session w') t of
             None \<Rightarrow> (Inl MySQLError, w')
           | Some rows \<Rightarrow>
               (case sql_row E p of
                  None \<Rightarrow> (Inl MySQLError, w')
                | Some r \<Rightarrow>
                    if unique_strike r \<in> set (map unique_strike rows) then (Inr 0, w')
                    else (Inr 1, w'\<lparr>session := put_rows t (rows @ [r]) (session w')\<rparr>))))"

section \<open>Table Router\<close>

text \<open>
  The clock of the host: \<^verbatim>\<open>datetime.now()\<close> reads the local wall-clock time,
  \<open>utc_now\<close> is the same instant in UTC.
\<close>

record clock =
  utc_now :: datetime
  local_now :: datetime

definition digit :: "nat \<Rightarrow> char" where
  "digit n = ''0123456789'' ! (n mod 10)"

definition pad2 :: "nat \<Rightarrow> string" where
  "pad2 n = [digit (n div 10), digit n]"

definition pad4 :: "nat \<Rightarrow> string" where
  "pad4 n = [digit (n div 1000), digit (n div 100), digit (n div 10), digit n]"

text \<open>\<^verbatim>\<open>strftime('%Y%m%d_%H%M%S')\<close>, for the years 1000 to 9999.\<close>

definition strftime :: "datetime \<Rightarrow> string" where
  "strftime d =
     pad4 (year d) @ pad2 (month d) @ pad2 (day d) @ ''_'' @
     pad2 (hour d) @ pad2 (minute d) @ pad2 (second d)"

definition create_new_table :: "string \<Rightarrow> world \<Rightarrow> world" where
  "create_new_table table_name w =
     (case create_table_if_not_exists table_name w of
        (Inl e, w1) \<Rightarrow> w1
      | (Inr u, w1) \<Rightarrow> (case commit w1 of (Inl e, w2) \<Rightarrow> w2 | (Inr u', w2) \<Rightarrow> w2))"

text \<open>The loop of \<^verbatim>\<open>get_active_table\<close> over the sorted table names.\<close>

fun first_with_room :: "string list \<Rightarrow> world \<Rightarrow> (py_error + string option) \<times> world" where
  "first_with_room [] w = (Inr None, w)"
| "first_with_room (t # ts) w =
     (case select_count t w of
        (Inl e, w') \<Rightarrow> (Inl e, w')
      | (Inr count, w') \<Rightarrow>
          if count < 50000 then (Inr (Some t), w') else first_with_room ts w')"

definition get_active_table :: "clock \<Rightarrow> world \<Rightarrow> string option \<times> world" where
  "get_active_table clk w =
     (case show_tables_like ''lightning_data%'' w of
        (Inl e, w1) \<Rightarrow> (None, w1)
      | (Inr tables, w1) \<Rightarrow>
          (case first_with_room (rev (sort tables)) w1 of
             (Inl e, w2) \<Rightarrow> (None, w2)
           | (Inr (Some t), w2) \<Rightarrow> (Some t, w2)
           | (Inr None, w2) \<Rightarrow>
               (let new_table = ''lightning_data_'' @ strftime (local_now clk)
                in (Some new_table, create_new_table new_table w2))))"

section \<open>Ingestion Writer\<close>

definition and_then :: "py_error + 'a \<Rightarrow> ('a \<Rightarrow> py_error + 'b) \<Rightarrow> py_error + 'b" where
  "and_then m f = (case m of Inl e \<Rightarrow> Inl e | Inr x \<Rightarrow> f x)"

text \<open>The tuple of parameters of the INSERT statement, evaluated from left to right.\<close>

definition bind_params :: "extern \<Rightarrow> json \<Rightarrow> py_error + params" where
  "bind_params E record =
     and_then (py_getitem record ''latitude'') (\<lambda>v1. and_then (py_float E v1) (\<lambda>la.
     and_then (py_getitem record ''longitude'') (\<lambda>v2. and_then (py_float E v2) (\<lambda>lo.
     and_then (py_getitem record ''time'') (\<lambda>v3. and_then (py_strptime E v3) (\<lambda>t.
     and_then (py_getitem record ''flash_type'') (\<lambda>ft.
     and_then (py_getitem record ''peak_current'') (\<lambda>v5. and_then (py_float E v5) (\<lambda>pc.
     and_then (py_getitem record ''ic_height'') (\<lambda>v6. and_then (py_float E v6) (\<lambda>ic.
     and_then (py_getitem record ''number_of_sensors'') (\<lambda>v7. and_then (py_int E v7) (\<lambda>n.
       Inr \<lparr>p_latitude = la, p_longitude = lo, p_time = t, p_flash_type = ft,
            p_peak_current = pc, p_ic_height = ic, p_number_of_sensors = n\<rparr>)))))))))))))"

text \<open>
  The loop over \<^verbatim>\<open>up_records\<close>: it ends with the exception raised, if any, and with
  \<^verbatim>\<open>new_records\<close> as it stands then.
\<close>

fun insert_records ::
  "extern \<Rightarrow> string \<Rightarrow> json list \<Rightarrow> json list \<Rightarrow> world \<Rightarrow> (py_error option \<times> json list) \<times> world" where
  "insert_records E t [] new_records w = ((None, new_records), w)"
| "insert_records E t (record # rest) new_records w =
     (case bind_params E record of
        Inl e \<Rightarrow> ((Some e, new_records), w)
      | Inr p \<Rightarrow>
          (case insert_ignore E t p w of
             (Inl e, w') \<Rightarrow> ((Some e, new_records), w')
           | (Inr rowcount, w') \<Rightarrow>
               insert_records E t rest
                 (if rowcount > 0 then new_records @ [record] else new_records) w'))"

text \<open>
  \<^verbatim>\<open>push_data_to_db\<close>: \<open>Inl e\<close> is an exception that leaves the function; a
  \<^verbatim>\<open>mysql.connector.Error\<close> is caught and \<^verbatim>\<open>new_records\<close> is returned.
\<close>

definition push_data_to_db ::
  "extern \<Rightarrow> clock \<Rightarrow> json list \<Rightarrow> world \<Rightarrow> (py_error + json list) \<times> world" where
  "push_data_to_db E clk up_records w =
     (case connect_db w of
        (False, w1) \<Rightarrow> (Inr [], w1)
      | (True, w1) \<Rightarrow>
          (case get_active_table clk w1 of
             (None, w2) \<Rightarrow> (Inr [], close w2)
           | (Some active_table, w2) \<Rightarrow>
               if active_table = [] then (Inr [], close w2)
               else
                 (case insert_records E active_table up_records [] w2 of
                    ((Some e, new_records), w3) \<Rightarrow>
                      if e = MySQLError then (Inr new_records, close w3) else (Inl e, close w3)
                  | ((None, new_records), w3) \<Rightarrow>
                      (case commit w3 of
                         (Inl e, w4) \<Rightarrow> (Inr new_records, close w4)
                       | (Inr u, w4) \<Rightarrow> (Inr new_records, close w4)))))"

section \<open>The read query of the dashboard\<close>

datatype time_range = Last_Hour | Last_24_Hours | Last_7_Days | Last_30_Days | All_Time

datatype interval = HOUR nat | DAY nat

text \<open>
  The query text is built from these pieces, which stand for \<^verbatim>\<open>SELECT * FROM t\<close>,
  \<^verbatim>\<open>UNION ALL\<close>, \<^verbatim>\<open>WHERE time >= DATE_SUB(NOW(), INTERVAL i)\<close>,
  \<^verbatim>\<open>ORDER BY time DESC\<close> and \<^verbatim>\<open>LIMIT n\<close>.
\<close>

datatype sql_token =
    SELECT_ALL_FROM string
  | UNION_ALL
  | WHERE_TIME_SINCE interval
  | ORDER_BY_TIME_DESC
  | LIMIT nat

fun time_dict :: "time_range \<Rightarrow> interval option" where
  "time_dict Last_Hour = Some (HOUR 1)"
| "time_dict Last_24_Hours = Some (HOUR 24)"
| "time_dict Last_7_Days = Some (DAY 7)"
| "time_dict Last_30_Days = Some (DAY 30)"
| "time_dict All_Time = None"

text \<open>\<^verbatim>\<open>sep.join(parts)\<close>.\<close>

fun join_tokens :: "sql_token \<Rightarrow> sql_token list list \<Rightarrow> sql_token list" where
  "join_tokens sep [] = []"
| "join_tokens sep [x] = x"
| "join_tokens sep (x # y # rest) = x @ [sep] @ join_tokens sep (y # rest)"

definition build_query :: "string list \<Rightarrow> time_range \<Rightarrow> sql_token list" where
  "build_query tables tr =
     join_tokens UNION_ALL (map (\<lambda>table. [SELECT_ALL_FROM table]) tables) @
     (case time_dict tr of None \<Rightarrow> [] | Some i \<Rightarrow> [WHERE_TIME_SINCE i]) @
     [ORDER_BY_TIME_DESC, LIMIT 1000]"

text \<open>
  How MySQL reads such a text: a \<^verbatim>\<open>WHERE\<close> clause belongs to the \<^verbatim>\<open>SELECT\<close> it
  follows, and an \<^verbatim>\<open>ORDER BY\<close> or \<^verbatim>\<open>LIMIT\<close> after the last \<^verbatim>\<open>SELECT\<close> of a union
  applies to the whole union. A text that is not of this form is a syntax error.
\<close>

fun is_select_part :: "sql_token \<Rightarrow> bool" where
  "is_select_part ORDER_BY_TIME_DESC = False"
| "is_select_part (LIMIT n) = False"
| "is_select_part (SELECT_ALL_FROM t) = True"
| "is_select_part UNION_ALL = True"
| "is_select_part (WHERE_TIME_SINCE i) = True"

text \<open>The pieces between the \<^verbatim>\<open>UNION ALL\<close> separators.\<close>

fun split_union :: "sql_token list \<Rightarrow> sql_token list list" where
  "split_union [] = [[]]"
| "split_union (tok # toks) =
     (if tok = UNION_ALL then [] # split_union toks
      else (case split_union toks of
              [] \<Rightarrow> [[tok]]
            | seg # segs \<Rightarrow> (tok # seg) # segs))"

fun parse_select :: "sql_token list \<Rightarrow> (string \<times> interval option) option" where
  "parse_select [SELECT_ALL_FROM t] = Some (t, None)"
| "parse_select [SELECT_ALL_FROM t, WHERE_TIME_SINCE i] = Some (t, Some i)"
| "parse_select toks = None"

definition parse_selects :: "sql_token list \<Rightarrow> ((string \<times> interval option) list \<times> sql_token list) option" where
  "parse_selects toks =
     map_option (\<lambda>sels. (sels, dropWhile is_select_part toks))
       (those (map parse_select (split_union (takeWhile is_select_part toks))))"

fun parse_tail :: "sql_token list \<Rightarrow> (bool \<times> nat option) option" where
  "parse_tail [] = Some (False, None)"
| "parse_tail [ORDER_BY_TIME_DESC] = Some (True, None)"
| "parse_tail [LIMIT n] = Some (False, Some n)"
| "parse_tail [ORDER_BY_TIME_DESC, LIMIT n] = Some (True, Some n)"
| "parse_tail toks = None"

definition leap_year :: "nat \<Rightarrow> bool" where
  "leap_year y = (y mod 4 = 0 \<and> (y mod 100 \<noteq> 0 \<or> y mod 400 = 0))"

definition days_in_month :: "nat \<Rightarrow> nat \<Rightarrow> nat" where
  "days_in_month y m =
     (if m = 2 then (if leap_year y then 29 else 28)
      else if m = 4 \<or> m = 6 \<or> m = 9 \<or> m = 11 then 30 else 31)"

definition prev_day :: "datetime \<Rightarrow> datetime" where
  "prev_day d =
     (if 1 < day d then d\<lparr>day := day d - 1\<rparr>
      else if 1 < month d then d\<lparr>month := month d - 1, day := days_in_month (year d) (month d - 1)\<rparr>
      else d\<lparr>year := year d - 1, month := 12, day := 31\<rparr>)"

text \<open>\<^verbatim>\<open>DATE_SUB(d, INTERVAL i)\<close>.\<close>

fun date_sub :: "datetime \<Rightarrow> interval \<Rightarrow> datetime" where
  "date_sub d (DAY n) = (prev_day ^^ n) d"
| "date_sub d (HOUR n) =
     (let d' = (prev_day ^^ (n div 24)) d; h = n mod 24
      in if h \<le> hour d' then d'\<lparr>hour := hour d' - h\<rparr>
         else (prev_day d')\<lparr>hour := hour d' + 24 - h\<rparr>)"

definition time_key :: "datetime \<Rightarrow> nat \<times> nat \<times> nat \<times> nat \<times> nat \<times> nat" where
  "time_key d = (year d, month d, day d, hour d, minute d, second d)"

definition run_select :: "datetime \<Rightarrow> store \<Rightarrow> string \<times> interval option \<Rightarrow> py_error + row list" where
  "run_select now s sel =
     (case map_of s (fst sel) of
        None \<Rightarrow> Inl MySQLError
      | Some rows \<Rightarrow>
          (case snd sel of
             None \<Rightarrow> Inr rows
           | Some i \<Rightarrow> Inr (filter (\<lambda>r. time_key (date_sub now i) \<le> time_key (time r)) rows)))"

fun run_union :: "datetime \<Rightarrow> store \<Rightarrow> (string \<times> interval option) list \<Rightarrow> py_error + row list" where
  "run_union now s [] = Inr []"
| "run_union now s (sel # sels) =
     and_then (run_select now s sel) (\<lambda>rows.
     and_then (run_union now s sels) (\<lambda>more. Inr (rows @ more)))"

definition order_by_time_desc :: "row list \<Rightarrow> row list" where
  "order_by_time_desc rows = rev (sort_key (\<lambda>r. time_key (time r)) rows)"

definition run_query :: "datetime \<Rightarrow> store \<Rightarrow> sql_token list \<Rightarrow> py_error + row list" where
  "run_query now s toks =
     (case parse_selects toks of
        None \<Rightarrow> Inl MySQLError
      | Some (sels, tail) \<Rightarrow>
          (case parse_tail tail of
             None \<Rightarrow> Inl MySQLError
           | Some (ordered, cap) \<Rightarrow>
               (case run_union now s sels of
                  Inl e \<Rightarrow> Inl e
                | Inr rows \<Rightarrow>
                    (let sorted_rows = (if ordered then order_by_time_desc rows else rows)
                     in (case cap of
                           None \<Rightarrow> Inr sorted_rows
                         | Some n \<Rightarrow> Inr (take n sorted_rows))))))"

definition execute_query :: "datetime \<Rightarrow> sql_token list \<Rightarrow> world \<Rightarrow> (py_error + row list) \<times> world" where
  "execute_query now toks w =
     (case request w of
        None \<Rightarrow> (Inl MySQLError, w)
      | Some w' \<Rightarrow> (run_query now (session w') toks, w'))"

text \<open>
  The part of \<^verbatim>\<open>main\<close> that reads the rows to display; \<open>now\<close> is the \<^verbatim>\<open>NOW()\<close> of
  the server. \<open>None\<close>: no connection, or an error message instead of data.
\<close>

definition recent_data :: "datetime \<Rightarrow> time_range \<Rightarrow> world \<Rightarrow> row list option \<times> world" where
  "recent_data now tr w =
     (case connect_db w of
        (False, w1) \<Rightarrow> (None, w1)
      | (True, w1) \<Rightarrow>
          (case show_tables_like ''lightning_data%'' w1 of
             (Inl e, w2) \<Rightarrow> (None, close w2)
           | (Inr tables, w2) \<Rightarrow>
               (case execute_query now (build_query tables tr) w2 of
                  (Inl e, w3) \<Rightarrow> (None, close w3)
                | (Inr data, w3) \<Rightarrow> (Some data, close w3))))"

section \<open>A reference environment\<close>

text \<open>
  One behaviour of the library functions, used to run the model on sample inputs. It
  agrees with CPython and MySQL on the inputs used in this file: JSON numbers, plain
  decimal strings such as \<^verbatim>\<open>"26.5"\<close>, timestamps written exactly as
  \<^verbatim>\<open>YYYY-MM-DD HH:MM:SS\<close>, one-character flash types and values that fit their
  columns. Other forms that the real functions accept (exponents, \<^verbatim>\<open>"nan"\<close>,
  surrounding blanks, unpadded date fields) are refused here.
\<close>

fun digits_value :: "nat \<Rightarrow> string \<Rightarrow> nat option" where
  "digits_value acc [] = Some acc"
| "digits_value acc (c # cs) =
     (if c \<in> set ''0123456789'' then digits_value (10 * acc + (of_char c - 48)) cs else None)"

definition parse_nat :: "string \<Rightarrow> nat option" where
  "parse_nat s = (if s = [] then None else digits_value 0 s)"

definition parse_decimal :: "string \<Rightarrow> rat option" where
  "parse_decimal s =
     (let neg = (take 1 s = ''-'');
          body = (if take 1 s = ''-'' \<or> take 1 s = ''+'' then drop 1 s else s);
          ip = takeWhile (\<lambda>c. c \<noteq> CHR ''.'') body;
          fp = drop 1 (dropWhile (\<lambda>c. c \<noteq> CHR ''.'') body);
          sgn = (if neg then - 1 else 1)
      in case parse_nat ip of
           None \<Rightarrow> None
         | Some n \<Rightarrow>
             if ip = body then Some (sgn * of_nat n)
             else (case parse_nat fp of
                     None \<Rightarrow> None
                   | Some f \<Rightarrow> Some (sgn * (of_nat n + of_nat f / 10 ^ length fp))))"

fun ref_float :: "json \<Rightarrow> py_error + pyfloat" where
  "ref_float (JStr s) = (case parse_decimal s of None \<Rightarrow> Inl ValueError | Some r \<Rightarrow> Inr (Finite r))"
| "ref_float (JInt i) = Inr (Finite (of_int i))"
| "ref_float (JFloat x) = Inr x"
| "ref_float (JBool b) = Inr (Finite (if b then 1 else 0))"
| "ref_float JNull = Inl TypeError"
| "ref_float (JList xs) = Inl TypeError"
| "ref_float (JDict kvs) = Inl TypeError"

fun ref_int :: "json \<Rightarrow> py_error + int" where
  "ref_int (JStr s) =
     (case parse_nat (if take 1 s = ''-'' \<or> take 1 s = ''+'' then drop 1 s else s) of
        None \<Rightarrow> Inl ValueError
      | Some n \<Rightarrow> Inr (if take 1 s = ''-'' then - int n else int n))"
| "ref_int (JInt i) = Inr i"
| "ref_int (JFloat (Finite r)) = Inr (if 0 \<le> r then \<lfloor>r\<rfloor> else - \<lfloor>- r\<rfloor>)"
| "ref_int (JFloat NaN) = Inl ValueError"
| "ref_int (JFloat PosInf) = Inl OverflowError"
| "ref_int (JFloat NegInf) = Inl OverflowError"
| "ref_int (JBool b) = Inr (if b then 1 else 0)"
| "ref_int JNull = Inl TypeError"
| "ref_int (JList xs) = Inl TypeError"
| "ref_int (JDict kvs) = Inl TypeError"

definition valid_datetime :: "datetime \<Rightarrow> bool" where
  "valid_datetime d =
     (1 \<le> year d \<and> year d \<le> 9999 \<and> 1 \<le> month d \<and> month d \<le> 12 \<and>
      1 \<le> day d \<and> day d \<le> days_in_month (year d) (month d) \<and>
      hour d < 24 \<and> minute d < 60 \<and> second d < 60)"

definition parse_datetime :: "string \<Rightarrow> datetime option" where
  "parse_datetime s =
     (if length s = 19 \<and> s ! 4 = CHR ''-'' \<and> s ! 7 = CHR ''-'' \<and> s ! 10 = CHR '' '' \<and>
         s ! 13 = CHR '':'' \<and> s ! 16 = CHR '':'' then
        (case (parse_nat (take 4 s), parse_nat (take 2 (drop 5 s)), parse_nat (take 2 (drop 8 s)),
               parse_nat (take 2 (drop 11 s)), parse_nat (take 2 (drop 14 s)),
               parse_nat (take 2 (drop 17 s))) of
           (Some y, Some m, Some d, Some h, Some mi, Some se) \<Rightarrow>
             (let dt = \<lparr>year = y, month = m, day = d, hour = h, minute = mi, second = se\<rparr>
              in if valid_datetime dt then Some dt else None)
         | _ \<Rightarrow> None)
      else None)"

fun ref_strptime :: "json \<Rightarrow> py_error + datetime" where
  "ref_strptime (JStr s) = (case parse_datetime s of None \<Rightarrow> Inl ValueError | Some d \<Rightarrow> Inr d)"
| "ref_strptime JNull = Inl TypeError"
| "ref_strptime (JBool b) = Inl TypeError"
| "ref_strptime (JInt i) = Inl TypeError"
| "ref_strptime (JFloat x) = Inl TypeError"
| "ref_strptime (JList xs) = Inl TypeError"
| "ref_strptime (JDict kvs) = Inl TypeError"

text \<open>A DECIMAL column with \<open>s\<close> fractional digits: the value rounded half away from zero.\<close>

definition sql_decimal :: "nat \<Rightarrow> rat \<Rightarrow> rat" where
  "sql_decimal s x =
     (if 0 \<le> x then of_int \<lfloor>x * 10 ^ s + 1 / 2\<rfloor> / 10 ^ s
      else - (of_int \<lfloor>- x * 10 ^ s + 1 / 2\<rfloor> / 10 ^ s))"

definition ref_sql_row :: "params \<Rightarrow> row option" where
  "ref_sql_row p =
     (case (p_latitude p, p_longitude p, p_peak_current p, p_ic_height p, p_flash_type p) of
        (Finite la, Finite lo, Finite pc, Finite ic, JStr ft) \<Rightarrow>
          Some \<lparr>latitude = sql_decimal 7 la, longitude = sql_decimal 7 lo, time = p_time p,
               flash_type = take 1 ft, peak_current = sql_decimal 2 pc,
               ic_height = sql_decimal 2 ic, number_of_sensors = p_number_of_sensors p\<rparr>
      | _ \<Rightarrow> None)"

definition ref_extern :: extern where
  "ref_extern =
     \<lparr>py_float = ref_float, py_int = ref_int, py_strptime = ref_strptime, sql_row = ref_sql_row\<rparr>"

section \<open>Sample inputs\<close>

text \<open>A record of the API with the given latitude, longitude, time and sensor count.\<close>

definition strike :: "string \<Rightarrow> string \<Rightarrow> string \<Rightarrow> string \<Rightarrow> json" where
  "strike la lo t n =
     JDict [(''latitude'', JStr la), (''longitude'', JStr lo), (''time'', JStr t),
            (''flash_type'', JStr ''G''), (''peak_current'', JStr ''-12.5''),
            (''ic_height'', JStr ''0''), (''number_of_sensors'', JStr n)]"

definition api_payload :: "json list \<Rightarrow> json" where
  "api_payload recs = JDict [(''lightning_data'', JDict [(''10min_record'', JList recs)])]"

section \<open>Reading the store\<close>

text \<open>
  The notions used to state what the Table Router and the Ingestion Writer do to the
  store: the shard tables, the rows of a table (none when there is no such table), the
  name \<^verbatim>\<open>get_active_table\<close> gives a new shard, and a store to which a table has been
  added by \<^verbatim>\<open>CREATE TABLE IF NOT EXISTS\<close>.
\<close>

definition shard_names :: "store \<Rightarrow> string list" where
  "shard_names s = filter (sql_like ''lightning_data%'') (map fst s)"

definition table_rows :: "store \<Rightarrow> string \<Rightarrow> row list" where
  "table_rows s t = (case map_of s t of None \<Rightarrow> [] | Some rows \<Rightarrow> rows)"

definition has_room :: "store \<Rightarrow> string \<Rightarrow> bool" where
  "has_room s t = (length (table_rows s t) < 50000)"

definition new_shard_name :: "clock \<Rightarrow> string" where
  "new_shard_name clk = ''lightning_data_'' @ strftime (local_now clk)"

definition with_table :: "string \<Rightarrow> store \<Rightarrow> store" where
  "with_table t s = (if t \<in> set (map fst s) then s else s @ [(t, [])])"

text \<open>
  Sample rows of a shard: strikes at one place, one per second of the first of January
  2024, so that the rows differ in their unique key.
\<close>

definition sample_row :: "nat \<Rightarrow> row" where
  "sample_row i =
     \<lparr>latitude = 25, longitude = 80,
      time = \<lparr>year = 2024, month = 1, day = 1,
              hour = i div 3600, minute = i div 60 mod 60, second = i mod 60\<rparr>,
      flash_type = ''G'', peak_current = - (25 / 2), ic_height = 0, number_of_sensors = 5\<rparr>"

definition sample_rows :: "nat \<Rightarrow> row list" where
  "sample_rows n = map sample_row [0..<n]"

text \<open>A host whose local time is five and a half hours ahead of UTC, at noon of 1 June 2024.\<close>

definition sample_clock :: clock where
  "sample_clock =
     \<lparr>utc_now = \<lparr>year = 2024, month = 6, day = 1, hour = 6, minute = 30, second = 0\<rparr>,
      local_now = \<lparr>year = 2024, month = 6, day = 1, hour = 12, minute = 0, second = 0\<rparr>\<rparr>"

text \<open>A reachable store with the given committed tables and no open transaction.\<close>

definition store_of :: "store \<Rightarrow> world" where
  "store_of s = \<lparr>durable = s, session = s, uptime = None\<rparr>"

text \<open>A strike stored at noon of 1 June 2024, and the time of the server half an hour later.\<close>

definition recent_row :: row where
  "recent_row =
     \<lparr>latitude = 26, longitude = 80,
      time = \<lparr>year = 2024, month = 6, day = 1, hour = 12, minute = 0, second = 0\<rparr>,
      flash_type = ''G'', peak_current = - (25 / 2), ic_height = 0, number_of_sensors = 5\<rparr>"

definition half_past_noon :: datetime where
  "half_past_noon = \<lparr>year = 2024, month = 6, day = 1, hour = 12, minute = 30, second = 0\<rparr>"

text \<open>
  The row a record is stored as, when its fields convert (\<open>None\<close>: the \<^verbatim>\<open>INSERT\<close> of
  the record raises), and the unique key of that row.
\<close>

definition stored_row :: "extern \<Rightarrow> json \<Rightarrow> row option" where
  "stored_row E record = (case bind_params E record of Inl e \<Rightarrow> None | Inr p \<Rightarrow> sql_row E p)"

definition strike_key :: "extern \<Rightarrow> json \<Rightarrow> (rat \<times> rat \<times> datetime) option" where
  "strike_key E record = map_option unique_strike (stored_row E record)"

text \<open>
  What the loop of \<^verbatim>\<open>INSERT IGNORE\<close> statements makes of the rows of a table and of
  the list of new records, as long as no statement raises.
\<close>

fun insert_loop :: "extern \<Rightarrow> json list \<Rightarrow> row list \<times> json list \<Rightarrow> row list \<times> json list" where
  "insert_loop E [] acc = acc"
| "insert_loop E (record # rest) acc =
     (case stored_row E record of
        None \<Rightarrow> acc
      | Some x \<Rightarrow>
          if unique_strike x \<in> set (map unique_strike (fst acc)) then insert_loop E rest acc
          else insert_loop E rest (fst acc @ [x], snd acc @ [record]))"


section \<open>Properties of the Record Filter\<close>

lemma getitem_Inr:
  "py_getitem p k = Inr v \<Longrightarrow> truthy p \<and> py_contains k p = Inr True"
  by (cases p) (force split: option.splits dest: map_of_SomeD)+

lemma in_up_within: "in_up E r = Inr b \<Longrightarrow> b = within_bbox E r"
  by (auto simp: in_up_def within_bbox_def coordinate_def min_lat_def max_lat_def
        min_lon_def max_lon_def split: sum.splits if_splits)

lemma keep_up_filter: "keep_up E recs = Inr out \<Longrightarrow> out = filter (within_bbox E) recs"
  by (induction recs arbitrary: out) (auto split: sum.splits dest: in_up_within)

lemma in_up_readable: "readable E r \<Longrightarrow> in_up E r = Inr (within_bbox E r)"
  by (auto simp: readable_def in_up_def within_bbox_def coordinate_def min_lat_def max_lat_def
        min_lon_def max_lon_def split: sum.splits if_splits)

lemma keep_up_total:
  "\<forall>r\<in>set recs. readable E r \<Longrightarrow> keep_up E recs = Inr (filter (within_bbox E) recs)"
  by (induction recs) (auto simp: in_up_readable)

lemma filter_up_data_keys:
  "py_getitem payload ''lightning_data'' = Inr ld \<Longrightarrow> py_getitem ld ''10min_record'' = Inr v \<Longrightarrow>
   filter_up_data E payload = (case py_iter v of Inl e \<Rightarrow> Inl e | Inr items \<Rightarrow> keep_up E items)"
  using getitem_Inr[of payload "''lightning_data''" ld] getitem_Inr[of ld "''10min_record''" v]
  by (simp add: filter_up_data_def)

lemma within_bbox_finite:
  "coordinate E r ''latitude'' = Some (Finite a) \<Longrightarrow>
   coordinate E r ''longitude'' = Some (Finite b) \<Longrightarrow>
   within_bbox E r \<longleftrightarrow> 24 \<le> a \<and> a \<le> 28 \<and> 77 \<le> b \<and> b \<le> 84"
  by (simp add: within_bbox_def)

lemma in_up_error_latitude:
  "py_getitem r ''latitude'' = Inr v \<Longrightarrow> py_float E v = Inl e \<Longrightarrow> in_up E r = Inl e"
  by (simp add: in_up_def)

lemma in_up_error_longitude:
  "py_getitem r ''latitude'' = Inr v \<Longrightarrow> py_float E v = Inr (Finite a) \<Longrightarrow>
   24 \<le> a \<Longrightarrow> a \<le> 28 \<Longrightarrow>
   py_getitem r ''longitude'' = Inr u \<Longrightarrow> py_float E u = Inl e \<Longrightarrow> in_up E r = Inl e"
  by (simp add: in_up_def min_lat_def max_lat_def)

lemma keep_up_error:
  "r \<in> set recs \<Longrightarrow> in_up E r = Inl e \<Longrightarrow> \<exists>e'. keep_up E recs = Inl e'"
  by (induction recs) (auto split: sum.splits)

lemma keep_up_first_error:
  "keep_up E pre = Inr out \<Longrightarrow> in_up E r = Inl e \<Longrightarrow> keep_up E (pre @ r # post) = Inl e"
  by (induction pre arbitrary: out) (auto split: sum.splits)

lemma parse_decimal_samples:
  "parse_decimal ''26'' = Some 26"
  "parse_decimal ''80'' = Some 80"
  "parse_decimal ''10'' = Some 10"
  "parse_decimal ''24.0'' = Some 24"
  "parse_decimal ''-12.5'' = Some (- (25 / 2))"
  "parse_decimal ''0'' = Some 0"
  "parse_decimal ''abc'' = None"
  by (simp_all add: parse_decimal_def parse_nat_def)

lemma getitem_strike:
  "py_getitem (strike la lo t n) ''latitude'' = Inr (JStr la)"
  "py_getitem (strike la lo t n) ''longitude'' = Inr (JStr lo)"
  by (simp_all add: strike_def)

lemma coordinate_strike:
  "coordinate E (strike la lo t n) ''latitude'' =
     (case py_float E (JStr la) of Inl e \<Rightarrow> None | Inr x \<Rightarrow> Some x)"
  "coordinate E (strike la lo t n) ''longitude'' =
     (case py_float E (JStr lo) of Inl e \<Rightarrow> None | Inr x \<Rightarrow> Some x)"
  by (simp_all add: coordinate_def getitem_strike)

lemma getitem_api_payload:
  "py_getitem (api_payload recs) ''lightning_data'' = Inr (JDict [(''10min_record'', JList recs)])"
  "py_getitem (JDict [(''10min_record'', JList recs)]) ''10min_record'' = Inr (JList recs)"
  by (simp_all add: api_payload_def)

text \<open>
  Claim C2. For a payload that holds the expected keys, with the list \<open>recs\<close> under
  \<^verbatim>\<open>lightning_data.10min_record\<close>: whenever \<open>filter_up_data\<close> returns, it returns exactly
  the records of \<open>recs\<close> whose latitude and longitude, converted with \<^verbatim>\<open>float\<close>, both lie in
  the inclusive box 24..28 by 77..84, and it does return when the coordinates of every record
  can be read. For finite coordinates \<open>a\<close> and \<open>b\<close> the box is
  \<open>24 \<le> a \<le> 28\<close> and \<open>77 \<le> b \<le> 84\<close>, so a record on a boundary is kept and a record with
  one coordinate outside is dropped.
\<close>

theorem filter_up_data_bounding_box:
  assumes "py_getitem payload ''lightning_data'' = Inr ld"
      and "py_getitem ld ''10min_record'' = Inr (JList recs)"
  shows "((\<forall>r\<in>set recs. readable E r) \<longrightarrow>
            filter_up_data E payload = Inr (filter (within_bbox E) recs)) \<and>
         (\<forall>out. filter_up_data E payload = Inr out \<longrightarrow> out = filter (within_bbox E) recs) \<and>
         (\<forall>r a b. coordinate E r ''latitude'' = Some (Finite a) \<and>
                  coordinate E r ''longitude'' = Some (Finite b) \<longrightarrow>
                  (within_bbox E r \<longleftrightarrow> 24 \<le> a \<and> a \<le> 28 \<and> 77 \<le> b \<and> b \<le> 84))"
proof -
  have eq: "filter_up_data E payload = keep_up E recs"
    using filter_up_data_keys[OF assms] by simp
  have a: "(\<forall>r\<in>set recs. readable E r) \<longrightarrow>
            filter_up_data E payload = Inr (filter (within_bbox E) recs)"
    unfolding eq by (rule impI) (rule keep_up_total)
  have b: "\<forall>out. filter_up_data E payload = Inr out \<longrightarrow> out = filter (within_bbox E) recs"
    unfolding eq by (blast dest: keep_up_filter)
  have c: "\<forall>r a b. coordinate E r ''latitude'' = Some (Finite a) \<and>
                  coordinate E r ''longitude'' = Some (Finite b) \<longrightarrow>
                  (within_bbox E r \<longleftrightarrow> 24 \<le> a \<and> a \<le> 28 \<and> 77 \<le> b \<and> b \<le> 84)"
    by (simp add: within_bbox_finite)
  from a b c show ?thesis by blast
qed

text \<open>
  Two strikes inside the box (one of them on the boundary latitude 24.0) and one at
  latitude 10: the filter returns the two inside, in their order.
\<close>

theorem filter_up_data_bounding_box_witness:
  "filter_up_data ref_extern
     (api_payload [strike ''26'' ''80'' ''2024-06-01 12:00:00'' ''5'',
                   strike ''10'' ''80'' ''2024-06-01 12:00:01'' ''5'',
                   strike ''24.0'' ''80'' ''2024-06-01 12:00:02'' ''5''])
   = Inr [strike ''26'' ''80'' ''2024-06-01 12:00:00'' ''5'',
          strike ''24.0'' ''80'' ''2024-06-01 12:00:02'' ''5'']"
proof -
  let ?recs = "[strike ''26'' ''80'' ''2024-06-01 12:00:00'' ''5'',
                strike ''10'' ''80'' ''2024-06-01 12:00:01'' ''5'',
                strike ''24.0'' ''80'' ''2024-06-01 12:00:02'' ''5'']"
  have r: "\<forall>r\<in>set ?recs. readable ref_extern r"
    by (simp add: readable_def coordinate_strike ref_extern_def parse_decimal_samples)
  have f: "filter (within_bbox ref_extern) ?recs =
             [strike ''26'' ''80'' ''2024-06-01 12:00:00'' ''5'',
              strike ''24.0'' ''80'' ''2024-06-01 12:00:02'' ''5'']"
    by (simp add: within_bbox_def coordinate_strike ref_extern_def parse_decimal_samples)
  have "filter_up_data ref_extern (api_payload ?recs) =
          Inr (filter (within_bbox ref_extern) ?recs)"
    using conjunct1[OF filter_up_data_bounding_box[OF getitem_api_payload, of ?recs ref_extern]] r
    by (rule mp)
  then show ?thesis by (simp only: f)
qed

lemma sample_within:
  "within_bbox ref_extern (strike ''26'' ''80'' t n)"
  "\<not> within_bbox ref_extern (strike ''10'' ''80'' t n)"
  "within_bbox ref_extern (strike ''24.0'' ''80'' t n)"
  by (simp_all add: within_bbox_def coordinate_strike ref_extern_def parse_decimal_samples)

lemma sample_readable:
  "readable ref_extern (strike ''26'' ''80'' t n)"
  "readable ref_extern (strike ''10'' ''80'' t n)"
  "readable ref_extern (strike ''24.0'' ''80'' t n)"
  by (simp_all add: readable_def coordinate_strike ref_extern_def parse_decimal_samples)

lemma sample_filter_run:
  "filter_up_data ref_extern
     (api_payload [strike ''26'' ''80'' t1 n1, strike ''10'' ''80'' t2 n2, strike ''24.0'' ''80'' t3 n3])
   = Inr [strike ''26'' ''80'' t1 n1, strike ''24.0'' ''80'' t3 n3]"
proof -
  have "keep_up ref_extern [strike ''26'' ''80'' t1 n1, strike ''10'' ''80'' t2 n2, strike ''24.0'' ''80'' t3 n3]
        = Inr [strike ''26'' ''80'' t1 n1, strike ''24.0'' ''80'' t3 n3]"
    by (simp add: in_up_readable sample_readable sample_within)
  then show ?thesis
    using filter_up_data_keys[OF getitem_api_payload, where E = ref_extern] by simp
qed

text \<open>
  Claim C9. For a payload that holds the expected keys, with \<open>items\<close> the records that the
  iteration over \<^verbatim>\<open>lightning_data.10min_record\<close> yields: whatever \<open>filter_up_data\<close> returns
  is a subsequence of \<open>items\<close> (its elements are input records, unchanged and in their input
  order), and it does return when the coordinates of every record can be read.
\<close>

theorem filter_up_data_subsequence:
  assumes "py_getitem payload ''lightning_data'' = Inr ld"
      and "py_getitem ld ''10min_record'' = Inr v"
      and "py_iter v = Inr items"
  shows "(\<forall>out. filter_up_data E payload = Inr out \<longrightarrow> subseq out items \<and> set out \<subseteq> set items) \<and>
         ((\<forall>r\<in>set items. readable E r) \<longrightarrow> (\<exists>out. filter_up_data E payload = Inr out))"
proof -
  have eq: "filter_up_data E payload = keep_up E items"
    using filter_up_data_keys[OF assms(1,2)] assms(3) by simp
  have a: "subseq out items \<and> set out \<subseteq> set items" if "keep_up E items = Inr out" for out
  proof -
    from that have "out = filter (within_bbox E) items" by (rule keep_up_filter)
    then show ?thesis by auto
  qed
  have b: "\<exists>out. keep_up E items = Inr out" if "\<forall>r\<in>set items. readable E r"
    using keep_up_total[OF that] by blast
  from a b show ?thesis unfolding eq by blast
qed

theorem filter_up_data_subsequence_witness:
  "filter_up_data ref_extern
     (api_payload [strike ''26'' ''80'' ''2024-06-01 12:00:00'' ''5'',
                   strike ''10'' ''80'' ''2024-06-01 12:00:01'' ''5'',
                   strike ''24.0'' ''80'' ''2024-06-01 12:00:02'' ''5''])
   = Inr [strike ''26'' ''80'' ''2024-06-01 12:00:00'' ''5'',
          strike ''24.0'' ''80'' ''2024-06-01 12:00:02'' ''5''] \<and>
   subseq [strike ''26'' ''80'' ''2024-06-01 12:00:00'' ''5'',
           strike ''24.0'' ''80'' ''2024-06-01 12:00:02'' ''5'']
          [strike ''26'' ''80'' ''2024-06-01 12:00:00'' ''5'',
           strike ''10'' ''80'' ''2024-06-01 12:00:01'' ''5'',
           strike ''24.0'' ''80'' ''2024-06-01 12:00:02'' ''5'']"
proof -
  let ?recs = "[strike ''26'' ''80'' ''2024-06-01 12:00:00'' ''5'',
                strike ''10'' ''80'' ''2024-06-01 12:00:01'' ''5'',
                strike ''24.0'' ''80'' ''2024-06-01 12:00:02'' ''5'']"
  let ?out = "[strike ''26'' ''80'' ''2024-06-01 12:00:00'' ''5'',
               strike ''24.0'' ''80'' ''2024-06-01 12:00:02'' ''5'']"
  have run: "filter_up_data ref_extern (api_payload ?recs) = Inr ?out"
    by (rule sample_filter_run)
  have it: "py_iter (JList ?recs) = Inr ?recs" by simp
  from conjunct1[OF filter_up_data_subsequence[OF getitem_api_payload it, where E = ref_extern]] run
  have "subseq ?out ?recs" by blast
  with run show ?thesis by blast
qed

lemma in_up_out_of_range:
  "py_getitem r ''latitude'' = Inr x \<Longrightarrow> py_float E x = Inr la \<Longrightarrow>
   \<not> (float_le (Finite 24) la \<and> float_le la (Finite 28)) \<Longrightarrow> in_up E r = Inr False"
  by (auto simp: in_up_def min_lat_def max_lat_def)

lemma keep_up_dropped:
  "in_up E r = Inr False \<Longrightarrow> keep_up E (pre @ r # post) = keep_up E (pre @ post)"
  by (induction pre) (auto split: sum.splits)

text \<open>
  Claim C7, as stated, fails: a record whose latitude is outside the range is dropped
  before its longitude is converted, so an invalid longitude string goes unnoticed.
\<close>

theorem filter_up_data_invalid_longitude_counterexample:
  "py_float ref_extern (JStr ''abc'') = Inl ValueError \<and>
   filter_up_data ref_extern (api_payload [strike ''10'' ''abc'' ''2024-06-01 12:00:00'' ''5''])
     = Inr []"
proof -
  have "in_up ref_extern (strike ''10'' ''abc'' ''2024-06-01 12:00:00'' ''5'') = Inr False"
    by (simp add: in_up_def getitem_strike ref_extern_def parse_decimal_samples
          min_lat_def max_lat_def)
  then have "keep_up ref_extern [strike ''10'' ''abc'' ''2024-06-01 12:00:00'' ''5''] = Inr []"
    by simp
  then have "filter_up_data ref_extern
      (api_payload [strike ''10'' ''abc'' ''2024-06-01 12:00:00'' ''5'']) = Inr []"
    using filter_up_data_keys[OF getitem_api_payload, where E = ref_extern] by simp
  then show ?thesis by (simp add: ref_extern_def parse_decimal_samples)
qed

text \<open>
  Claim C7, amended. For a payload that holds the expected keys and a record \<open>r\<close> of its
  list: \<open>filter_up_data\<close> raises when the conversion of the latitude of \<open>r\<close> fails, or
  when that latitude is in the range 24..28 and the conversion of the longitude fails, and
  the error raised is the one of that conversion when the records before \<open>r\<close> are filtered
  without error. When the latitude of \<open>r\<close> converts to a value outside 24..28, the
  condition is false for \<open>r\<close> whatever its longitude holds: the longitude is not
  converted, and the call gives what it gives for the list without \<open>r\<close>.
\<close>

theorem filter_up_data_parse_failure:
  assumes "py_getitem payload ''lightning_data'' = Inr ld"
      and "py_getitem ld ''10min_record'' = Inr v"
      and "py_iter v = Inr (pre @ r # post)"
  shows "((\<exists>x. py_getitem r ''latitude'' = Inr x \<and> py_float E x = Inl e) \<or>
          (\<exists>x a u. py_getitem r ''latitude'' = Inr x \<and> py_float E x = Inr (Finite a) \<and>
                   24 \<le> a \<and> a \<le> 28 \<and>
                   py_getitem r ''longitude'' = Inr u \<and> py_float E u = Inl e) \<longrightarrow>
          (\<exists>e'. filter_up_data E payload = Inl e') \<and>
          (\<forall>out. keep_up E pre = Inr out \<longrightarrow> filter_up_data E payload = Inl e)) \<and>
         (\<forall>x la. py_getitem r ''latitude'' = Inr x \<and> py_float E x = Inr la \<and>
                  \<not> (float_le (Finite 24) la \<and> float_le la (Finite 28)) \<longrightarrow>
                  in_up E r = Inr False \<and>
                  filter_up_data E payload = keep_up E (pre @ post))"
proof -
  have eq: "filter_up_data E payload = keep_up E (pre @ r # post)"
    using filter_up_data_keys[OF assms(1,2)] assms(3) by simp
  have raising: "(\<exists>e'. keep_up E (pre @ r # post) = Inl e') \<and>
          (\<forall>out. keep_up E pre = Inr out \<longrightarrow> keep_up E (pre @ r # post) = Inl e)"
    if bad: "(\<exists>x. py_getitem r ''latitude'' = Inr x \<and> py_float E x = Inl e) \<or>
          (\<exists>x a u. py_getitem r ''latitude'' = Inr x \<and> py_float E x = Inr (Finite a) \<and>
                   24 \<le> a \<and> a \<le> 28 \<and>
                   py_getitem r ''longitude'' = Inr u \<and> py_float E u = Inl e)"
  proof -
    have err: "in_up E r = Inl e"
      using bad by (auto intro: in_up_error_latitude in_up_error_longitude)
    have "\<exists>e'. keep_up E (pre @ r # post) = Inl e'"
      by (rule keep_up_error[OF _ err]) simp
    moreover have "\<forall>out. keep_up E pre = Inr out \<longrightarrow> keep_up E (pre @ r # post) = Inl e"
      using keep_up_first_error[OF _ err] by blast
    ultimately show ?thesis by blast
  qed
  have dropped: "in_up E r = Inr False \<and> keep_up E (pre @ r # post) = keep_up E (pre @ post)"
    if "py_getitem r ''latitude'' = Inr x" "py_float E x = Inr la"
       "\<not> (float_le (Finite 24) la \<and> float_le la (Finite 28))" for x la
  proof -
    have "in_up E r = Inr False" using that by (rule in_up_out_of_range)
    then show ?thesis by (simp add: keep_up_dropped)
  qed
  from raising dropped show ?thesis unfolding eq by blast
qed

theorem filter_up_data_parse_failure_witness:
  "filter_up_data ref_extern
     (api_payload [strike ''26'' ''80'' ''2024-06-01 12:00:00'' ''5'',
                   strike ''26'' ''abc'' ''2024-06-01 12:00:01'' ''5'']) = Inl ValueError \<and>
   filter_up_data ref_extern
     (api_payload [strike ''26'' ''80'' ''2024-06-01 12:00:00'' ''5'',
                   strike ''10'' ''abc'' ''2024-06-01 12:00:01'' ''5'',
                   strike ''24.0'' ''80'' ''2024-06-01 12:00:02'' ''5''])
     = Inr [strike ''26'' ''80'' ''2024-06-01 12:00:00'' ''5'',
            strike ''24.0'' ''80'' ''2024-06-01 12:00:02'' ''5'']"
proof -
  let ?a = "strike ''26'' ''80'' ''2024-06-01 12:00:00'' ''5''"
  let ?r = "strike ''26'' ''abc'' ''2024-06-01 12:00:01'' ''5''"
  let ?d = "strike ''10'' ''abc'' ''2024-06-01 12:00:01'' ''5''"
  let ?c = "strike ''24.0'' ''80'' ''2024-06-01 12:00:02'' ''5''"
  have it: "py_iter (JList ([?a] @ ?r # [])) = Inr ([?a] @ ?r # [])" by simp
  have bad: "(\<exists>x. py_getitem ?r ''latitude'' = Inr x \<and> py_float ref_extern x = Inl ValueError) \<or>
           (\<exists>x a u. py_getitem ?r ''latitude'' = Inr x \<and> py_float ref_extern x = Inr (Finite a) \<and>
                    24 \<le> a \<and> a \<le> 28 \<and>
                    py_getitem ?r ''longitude'' = Inr u \<and> py_float ref_extern u = Inl ValueError)"
    by (simp add: getitem_strike ref_extern_def parse_decimal_samples)
  have pre: "keep_up ref_extern [?a] = Inr [?a]"
    by (simp add: in_up_readable sample_readable sample_within)
  have "\<forall>out. keep_up ref_extern [?a] = Inr out \<longrightarrow>
          filter_up_data ref_extern (api_payload ([?a] @ ?r # [])) = Inl ValueError"
    using conjunct1[OF filter_up_data_parse_failure[OF getitem_api_payload it]] bad by blast
  with pre have one: "filter_up_data ref_extern (api_payload ([?a] @ ?r # [])) = Inl ValueError"
    by blast
  have it2: "py_iter (JList ([?a] @ ?d # [?c])) = Inr ([?a] @ ?d # [?c])" by simp
  have out: "py_getitem ?d ''latitude'' = Inr (JStr ''10'') \<and>
             py_float ref_extern (JStr ''10'') = Inr (Finite 10) \<and>
             \<not> (float_le (Finite 24) (Finite 10) \<and> float_le (Finite 10) (Finite 28))"
    by (simp add: getitem_strike ref_extern_def parse_decimal_samples)
  have rest: "keep_up ref_extern ([?a] @ [?c]) = Inr [?a, ?c]"
    by (simp add: in_up_readable sample_readable sample_within)
  have "filter_up_data ref_extern (api_payload ([?a] @ ?d # [?c])) = keep_up ref_extern ([?a] @ [?c])"
    using conjunct2[OF filter_up_data_parse_failure[OF getitem_api_payload it2]] out by blast
  with rest have two: "filter_up_data ref_extern (api_payload ([?a] @ ?d # [?c])) = Inr [?a, ?c]"
    by simp
  from one two show ?thesis by simp
qed

text \<open>
  Claim C8. The guard of \<open>filter_up_data\<close> answers the payloads without the expected keys
  with the empty list: the empty payload, a payload without \<^verbatim>\<open>lightning_data\<close>, a payload
  whose \<^verbatim>\<open>lightning_data\<close> is a dictionary without \<^verbatim>\<open>10min_record\<close>. The payload
  \<^verbatim>\<open>{"lightning_data": null}\<close> has no \<^verbatim>\<open>10min_record\<close> either, but there the
  membership test of the guard itself raises \<^verbatim>\<open>TypeError\<close>: the code departs from the
  claim on this input.
\<close>

theorem filter_up_data_null_lightning_data:
  "filter_up_data E (JDict []) = Inr [] \<and>
   filter_up_data E (JDict [(''status'', JStr ''ok'')]) = Inr [] \<and>
   filter_up_data E (JDict [(''lightning_data'', JDict [])]) = Inr [] \<and>
   filter_up_data E (JDict [(''lightning_data'', JNull)]) = Inl TypeError"
  by (simp add: filter_up_data_def)

section \<open>Properties of the store, the Table Router and the Ingestion Writer\<close>

lemma request_up: "uptime w = None \<Longrightarrow> request w = Some w"
  by (simp add: request_def)

lemma request_frame:
  "request w = Some w' \<Longrightarrow> durable w' = durable w \<and> session w' = session w"
  by (auto simp: request_def split: option.splits nat.splits)

lemma connect_db_up: "uptime w = None \<Longrightarrow> connect_db w = (True, w\<lparr>session := durable w\<rparr>)"
  by (simp add: connect_db_def request_up)

lemma commit_up: "uptime w = None \<Longrightarrow> commit w = (Inr (), w\<lparr>durable := session w\<rparr>)"
  by (simp add: commit_def request_up)

lemma show_tables_like_up:
  "uptime w = None \<Longrightarrow>
   show_tables_like ''lightning_data%'' w = (Inr (shard_names (session w)), w)"
  by (simp add: show_tables_like_def request_up shard_names_def)

lemma select_count_up:
  "uptime w = None \<Longrightarrow> t \<in> set (map fst (session w)) \<Longrightarrow>
   select_count t w = (Inr (length (table_rows (session w) t)), w)"
  by (auto simp: select_count_def request_up table_rows_def map_of_eq_None_iff
        split: option.splits)

lemma first_with_room_up:
  "uptime w = None \<Longrightarrow> set ts \<subseteq> set (map fst (session w)) \<Longrightarrow>
   first_with_room ts w = (Inr (find (has_room (session w)) ts), w)"
  by (induction ts) (simp_all add: select_count_up has_room_def)

lemma create_new_table_up:
  "uptime w = None \<Longrightarrow>
   create_new_table t w =
     w\<lparr>durable := with_table t (session w), session := with_table t (session w)\<rparr>"
  by (simp add: create_new_table_def create_table_if_not_exists_def request_up commit_def
        request_def with_table_def)

lemma shard_names_subset: "set (rev (sort (shard_names s))) \<subseteq> set (map fst s)"
  by (auto simp: shard_names_def)

lemma get_active_table_up:
  "uptime w = None \<Longrightarrow>
   get_active_table clk w =
     (case find (has_room (session w)) (rev (sort (shard_names (session w)))) of
        Some t \<Rightarrow> (Some t, w)
      | None \<Rightarrow>
          (Some (new_shard_name clk),
           w\<lparr>durable := with_table (new_shard_name clk) (session w),
             session := with_table (new_shard_name clk) (session w)\<rparr>))"
  unfolding get_active_table_def Let_def new_shard_name_def[symmetric]
  by (simp add: show_tables_like_up first_with_room_up[OF _ shard_names_subset]
        create_new_table_up split: option.splits)

lemma show_tables_like_frame:
  "show_tables_like p w = (r, w') \<Longrightarrow> durable w' = durable w \<and> session w' = session w"
  by (auto simp: show_tables_like_def split: option.splits dest: request_frame)

lemma select_count_frame:
  "select_count t w = (r, w') \<Longrightarrow> durable w' = durable w \<and> session w' = session w"
  by (auto simp: select_count_def split: option.splits dest: request_frame)

lemma first_with_room_frame:
  "first_with_room ts w = (r, w') \<Longrightarrow> durable w' = durable w \<and> session w' = session w"
proof (induction ts arbitrary: w)
  case Nil
  then show ?case by simp
next
  case (Cons t ts)
  obtain c w1 where sc: "select_count t w = (c, w1)" by (cases "select_count t w")
  note f = select_count_frame[OF sc]
  show ?case
  proof (cases c)
    case (Inl e)
    with Cons.prems sc f show ?thesis by simp
  next
    case (Inr n)
    show ?thesis
    proof (cases "n < 50000")
      case True
      with Cons.prems sc f Inr show ?thesis by simp
    next
      case False
      with Cons.prems sc Inr have "first_with_room ts w1 = (r, w')" by simp
      from Cons.IH[OF this] f show ?thesis by simp
    qed
  qed
qed

lemma commit_frame:
  "session w = durable w \<Longrightarrow> commit w = (r, w') \<Longrightarrow>
   durable w' = durable w \<and> session w' = session w"
  by (auto simp: commit_def split: option.splits dest: request_frame)

lemma create_new_table_frame:
  assumes "session w = durable w"
  shows "session (create_new_table t w) = durable (create_new_table t w) \<and>
         (durable (create_new_table t w) = durable w \<or>
          durable (create_new_table t w) = with_table t (durable w))"
proof (cases "request w")
  case None
  with assms show ?thesis
    by (simp add: create_new_table_def create_table_if_not_exists_def)
next
  case (Some w1)
  note f = request_frame[OF Some]
  let ?w2 = "w1\<lparr>durable := with_table t (session w1), session := with_table t (session w1)\<rparr>"
  have c: "create_table_if_not_exists t w = (Inr (), ?w2)"
    by (simp add: create_table_if_not_exists_def Some with_table_def)
  obtain r w3 where cm: "commit ?w2 = (r, w3)" by (cases "commit ?w2")
  have "durable w3 = durable ?w2 \<and> session w3 = session ?w2"
    by (rule commit_frame[OF _ cm]) simp
  moreover have "create_new_table t w = w3"
    using c cm by (cases r) (simp_all add: create_new_table_def)
  ultimately show ?thesis using f assms by simp
qed

lemma get_active_table_frame:
  assumes "session w = durable w" and "get_active_table clk w = (r, w')"
  shows "session w' = durable w' \<and>
         (durable w' = durable w \<or> durable w' = with_table (new_shard_name clk) (durable w))"
proof -
  obtain r1 w1 where st: "show_tables_like ''lightning_data%'' w = (r1, w1)"
    by (cases "show_tables_like ''lightning_data%'' w")
  note f1 = show_tables_like_frame[OF st]
  show ?thesis
  proof (cases r1)
    case (Inl e)
    with assms st f1 show ?thesis by (simp add: get_active_table_def)
  next
    case (Inr tables)
    obtain r2 w2 where fw: "first_with_room (rev (sort tables)) w1 = (r2, w2)"
      by (cases "first_with_room (rev (sort tables)) w1")
    note f2 = first_with_room_frame[OF fw]
    have s2: "session w2 = durable w2" using f1 f2 assms(1) by simp
    show ?thesis
    proof (cases r2)
      case (Inl e)
      with assms st Inr fw f1 f2 show ?thesis by (simp add: get_active_table_def)
    next
      case r2: (Inr found)
      show ?thesis
      proof (cases found)
        case (Some t)
        with assms st Inr fw r2 f1 f2 show ?thesis by (simp add: get_active_table_def)
      next
        case None
        have "w' = create_new_table (new_shard_name clk) w2"
          using assms(2) st Inr fw r2 None
          unfolding get_active_table_def Let_def new_shard_name_def[symmetric] by simp
        with create_new_table_frame[OF s2, of "new_shard_name clk"] f1 f2
        show ?thesis by simp
      qed
    qed
  qed
qed

lemma connect_db_frame:
  "connect_db w = (True, w1) \<Longrightarrow> session w1 = durable w1 \<and> durable w1 = durable w"
  by (auto simp: connect_db_def split: option.splits dest: request_frame)

lemma connect_db_failed: "connect_db w = (False, w1) \<Longrightarrow> w1 = w"
  by (auto simp: connect_db_def split: option.splits)

lemma push_empty_result: "fst (push_data_to_db E clk [] w) = Inr []"
  by (simp add: push_data_to_db_def split: prod.splits bool.splits option.splits sum.splits)

lemma push_empty_durable:
  "durable (snd (push_data_to_db E clk [] w)) = durable w \<or>
   durable (snd (push_data_to_db E clk [] w)) = with_table (new_shard_name clk) (durable w)"
proof -
  obtain ok w1 where c: "connect_db w = (ok, w1)" by (cases "connect_db w")
  show ?thesis
  proof (cases ok)
    case False
    with c connect_db_failed[of w w1] show ?thesis by (simp add: push_data_to_db_def)
  next
    case True
    with c have c': "connect_db w = (True, w1)" by simp
    note f1 = connect_db_frame[OF c']
    obtain r w2 where g: "get_active_table clk w1 = (r, w2)" by (cases "get_active_table clk w1")
    note f2 = get_active_table_frame[OF conjunct1[OF f1] g]
    obtain r3 w3 where cm: "commit w2 = (r3, w3)" by (cases "commit w2")
    note f3 = commit_frame[OF conjunct1[OF f2] cm]
    have "durable (snd (push_data_to_db E clk [] w)) = durable w2"
      using c True g cm f3
      by (cases r; cases r3) (simp_all add: push_data_to_db_def close_def)
    with f1 f2 show ?thesis by auto
  qed
qed

lemma table_rows_with_table: "table_rows (with_table n s) t = table_rows s t"
  by (force simp: table_rows_def with_table_def map_of_eq_None_iff split: option.splits if_splits
        dest!: map_of_SomeD)

lemma push_empty_up:
  assumes "uptime w = None"
  shows "\<exists>t. get_active_table clk (snd (connect_db w)) = (Some t, snd (push_data_to_db E clk [] w))"
proof -
  let ?w1 = "w\<lparr>session := durable w\<rparr>"
  have c: "connect_db w = (True, ?w1)" using assms by (rule connect_db_up)
  have u1: "uptime ?w1 = None" using assms by simp
  obtain t w2 where g: "get_active_table clk ?w1 = (Some t, w2)"
    and u2: "uptime w2 = None" and s2: "session w2 = durable w2"
    by (cases "find (has_room (durable w)) (rev (sort (shard_names (durable w))))")
       (simp_all add: get_active_table_up[OF u1] assms)
  have w2: "w2\<lparr>durable := session w2\<rparr> = w2" "w2\<lparr>session := durable w2\<rparr> = w2"
    using s2 by simp_all
  have "snd (push_data_to_db E clk [] w) = w2"
    by (simp add: push_data_to_db_def c g commit_up[OF u2] close_def w2 s2)
  with c g show ?thesis by simp
qed

lemma sql_like_any: "sql_like ''%'' s"
  by (induction s) simp_all



lemma new_shard_name_sample: "new_shard_name sample_clock = ''lightning_data_20240601_120000''"
  by (simp add: new_shard_name_def sample_clock_def strftime_def pad4_def pad2_def digit_def)

lemma length_sample_rows: "length (sample_rows n) = n"
  by (simp add: sample_rows_def)

lemma find_None_sorted: "find P (rev (sort xs)) = None \<longleftrightarrow> (\<forall>x\<in>set xs. \<not> P x)"
  by (auto simp: find_None_iff)

text \<open>
  Claim C10. For the empty record list \<open>push_data_to_db\<close> returns the empty list, whatever
  the state of the store. No row is inserted: every table holds the rows it held, and the
  committed store is the one before the call or that one with a new, empty shard table
  at its end. When the store is reachable the call connects and resolves the active shard:
  its effect on the store is the effect of \<open>get_active_table\<close> on the fresh connection,
  which returns a table; and when every shard is full (or there is none) and no table has
  the name of the new shard, the new shard table is created though there is nothing to
  insert.
\<close>

theorem push_data_to_db_empty_batch:
  "fst (push_data_to_db E clk [] w) = Inr [] \<and>
   (\<forall>t. table_rows (durable (snd (push_data_to_db E clk [] w))) t = table_rows (durable w) t) \<and>
   (durable (snd (push_data_to_db E clk [] w)) = durable w \<or>
    durable (snd (push_data_to_db E clk [] w)) = durable w @ [(new_shard_name clk, [])]) \<and>
   (uptime w = None \<longrightarrow>
      (\<exists>t. get_active_table clk (snd (connect_db w)) =
             (Some t, snd (push_data_to_db E clk [] w))) \<and>
      ((\<forall>t\<in>set (shard_names (durable w)). \<not> has_room (durable w) t) \<and>
       new_shard_name clk \<notin> set (map fst (durable w)) \<longrightarrow>
       durable (snd (push_data_to_db E clk [] w)) = durable w @ [(new_shard_name clk, [])]))"
proof -
  let ?w' = "snd (push_data_to_db E clk [] w)"
  let ?n = "new_shard_name clk"
  have d: "durable ?w' = durable w \<or> durable ?w' = with_table ?n (durable w)"
    by (rule push_empty_durable)
  have a: "fst (push_data_to_db E clk [] w) = Inr []" by (rule push_empty_result)
  have b: "\<forall>t. table_rows (durable ?w') t = table_rows (durable w) t"
    using d by (auto simp: table_rows_with_table)
  have c: "durable ?w' = durable w \<or> durable ?w' = durable w @ [(?n, [])]"
    using d by (auto simp: with_table_def split: if_splits)
  have e: "\<exists>t. get_active_table clk (snd (connect_db w)) = (Some t, ?w')" if "uptime w = None"
    using that by (rule push_empty_up)
  have f: "durable ?w' = durable w @ [(?n, [])]"
    if up: "uptime w = None"
      and full: "\<forall>t\<in>set (shard_names (durable w)). \<not> has_room (durable w) t"
      and fresh: "?n \<notin> set (map fst (durable w))"
  proof -
    let ?w1 = "w\<lparr>session := durable w\<rparr>"
    have c1: "connect_db w = (True, ?w1)" using up by (rule connect_db_up)
    have u1: "uptime ?w1 = None" using up by simp
    have none: "find (has_room (durable w)) (rev (sort (shard_names (durable w)))) = None"
      using full by (simp only: find_None_sorted)
    have "get_active_table clk ?w1 =
            (Some ?n, ?w1\<lparr>durable := with_table ?n (durable w),
                           session := with_table ?n (durable w)\<rparr>)"
      by (simp add: get_active_table_up[OF u1] none)
    moreover from e[OF up] c1 obtain t where
      "get_active_table clk ?w1 = (Some t, ?w')" by auto
    ultimately have "?w' = ?w1\<lparr>durable := with_table ?n (durable w),
                           session := with_table ?n (durable w)\<rparr>" by simp
    then have "durable ?w' = with_table ?n (durable w)" by simp
    with fresh show ?thesis by (simp add: with_table_def)
  qed
  from a b c e f show ?thesis by blast
qed

text \<open>
  A store whose only shard holds 50,000 rows: the call with no record returns the empty
  list and leaves a new, empty shard table named after the local time of the host.
\<close>

theorem push_data_to_db_empty_batch_witness:
  "fst (push_data_to_db ref_extern sample_clock []
          (store_of [(''lightning_data_20240101_000000'', sample_rows 50000)])) = Inr [] \<and>
   durable (snd (push_data_to_db ref_extern sample_clock []
          (store_of [(''lightning_data_20240101_000000'', sample_rows 50000)])))
     = [(''lightning_data_20240101_000000'', sample_rows 50000),
        (''lightning_data_20240601_120000'', [])]"
proof -
  let ?s = "[(''lightning_data_20240101_000000'', sample_rows 50000)]"
  note t = push_data_to_db_empty_batch[of ref_extern sample_clock "store_of ?s"]
  have up: "uptime (store_of ?s) = None" by (simp add: store_of_def)
  have d: "durable (store_of ?s) = ?s" by (simp add: store_of_def)
  have full: "\<forall>t\<in>set (shard_names ?s). \<not> has_room ?s t"
    by (simp add: shard_names_def has_room_def table_rows_def length_sample_rows)
  have fresh: "new_shard_name sample_clock \<notin> set (map fst ?s)"
    by (simp add: new_shard_name_sample)
  from t up full fresh
  have "fst (push_data_to_db ref_extern sample_clock [] (store_of ?s)) = Inr [] \<and>
        durable (snd (push_data_to_db ref_extern sample_clock [] (store_of ?s)))
          = ?s @ [(new_shard_name sample_clock, [])]"
    unfolding d by blast
  then show ?thesis by (simp add: new_shard_name_sample)
qed

lemma parse_datetime_samples:
  "parse_datetime ''2024-06-01 12:00:00'' =
     Some \<lparr>year = 2024, month = 6, day = 1, hour = 12, minute = 0, second = 0\<rparr>"
  "parse_datetime ''2024-06-01 12:00:01'' =
     Some \<lparr>year = 2024, month = 6, day = 1, hour = 12, minute = 0, second = 1\<rparr>"
  by (simp_all add: parse_datetime_def parse_nat_def valid_datetime_def days_in_month_def leap_year_def)

lemma parse_decimal_more: "parse_decimal ''26.5'' = Some (53 / 2)"
  by (simp add: parse_decimal_def parse_nat_def)

lemma ref_int_samples:
  "ref_int (JStr ''5'') = Inr 5"
  "ref_int (JStr ''9'') = Inr 9"
  by (simp_all add: parse_nat_def)

lemma bind_params_strike:
  "parse_decimal la = Some a \<Longrightarrow> parse_decimal lo = Some b \<Longrightarrow> parse_datetime t = Some d \<Longrightarrow>
   ref_int (JStr n) = Inr k \<Longrightarrow>
   bind_params ref_extern (strike la lo t n) =
     Inr \<lparr>p_latitude = Finite a, p_longitude = Finite b, p_time = d, p_flash_type = JStr ''G'',
          p_peak_current = Finite (- (25 / 2)), p_ic_height = Finite 0, p_number_of_sensors = k\<rparr>"
  by (simp add: bind_params_def strike_def and_then_def ref_extern_def parse_decimal_samples)

lemma sql_decimal_samples:
  "sql_decimal 7 26 = 26"
  "sql_decimal 7 80 = 80"
  "sql_decimal 7 (53 / 2) = 53 / 2"
  "sql_decimal 2 (- (25 / 2)) = - (25 / 2)"
  "sql_decimal 2 0 = 0"
  by code_simp+

lemma sql_row_strike:
  "sql_decimal 7 a = a' \<Longrightarrow> sql_decimal 7 b = b' \<Longrightarrow>
   sql_row ref_extern
     \<lparr>p_latitude = Finite a, p_longitude = Finite b, p_time = d, p_flash_type = JStr ''G'',
      p_peak_current = Finite (- (25 / 2)), p_ic_height = Finite 0, p_number_of_sensors = k\<rparr> =
   Some \<lparr>latitude = a', longitude = b', time = d, flash_type = ''G'',
         peak_current = - (25 / 2), ic_height = 0, number_of_sensors = k\<rparr>"
  by (simp add: ref_extern_def ref_sql_row_def sql_decimal_samples)

lemmas strike_26 =
  bind_params_strike[OF parse_decimal_samples(1) parse_decimal_samples(2)
    parse_datetime_samples(1) ref_int_samples(1)]

lemmas strike_26_5 =
  bind_params_strike[OF parse_decimal_more parse_decimal_samples(2)
    parse_datetime_samples(2) ref_int_samples(1)]

lemmas row_26 = sql_row_strike[OF sql_decimal_samples(1) sql_decimal_samples(2)]

lemmas row_26_5 = sql_row_strike[OF sql_decimal_samples(3) sql_decimal_samples(2)]

text \<open>
  Claim C5. A store with one empty shard that answers four more requests (the connection,
  \<^verbatim>\<open>SHOW TABLES\<close>, \<^verbatim>\<open>SELECT COUNT(*)\<close> and the first \<^verbatim>\<open>INSERT\<close>) and then fails, and a
  batch of two new records: the second \<^verbatim>\<open>INSERT\<close> raises, the transaction is never
  committed and the committed store is left as it was, yet \<open>push_data_to_db\<close> returns the
  first record as newly inserted.
\<close>

theorem push_data_to_db_storage_error:
  "push_data_to_db ref_extern sample_clock
     [strike ''26'' ''80'' ''2024-06-01 12:00:00'' ''5'',
      strike ''26.5'' ''80'' ''2024-06-01 12:00:01'' ''5'']
     \<lparr>durable = [(''lightning_data_20240101_000000'', [])],
      session = [(''lightning_data_20240101_000000'', [])],
      uptime = Some 4\<rparr>
   = (Inr [strike ''26'' ''80'' ''2024-06-01 12:00:00'' ''5''],
      \<lparr>durable = [(''lightning_data_20240101_000000'', [])],
       session = [(''lightning_data_20240101_000000'', [])],
       uptime = Some 0\<rparr>)"
  by (simp add: push_data_to_db_def connect_db_def request_def get_active_table_def
        show_tables_like_def select_count_def insert_ignore_def close_def
        strike_26 strike_26_5 row_26 row_26_5 put_rows_def sql_like_any)

lemma build_query_sample:
  "build_query [''lightning_data_20240101_000000'', ''lightning_data_20240601_000000''] Last_Hour =
     [SELECT_ALL_FROM ''lightning_data_20240101_000000'', UNION_ALL,
      SELECT_ALL_FROM ''lightning_data_20240601_000000'', WHERE_TIME_SINCE (HOUR 1),
      ORDER_BY_TIME_DESC, LIMIT 1000]"
  by (simp add: build_query_def)

lemma parse_sample:
  "parse_selects
     [SELECT_ALL_FROM a, UNION_ALL, SELECT_ALL_FROM b, WHERE_TIME_SINCE i,
      ORDER_BY_TIME_DESC, LIMIT n] =
   Some ([(a, None), (b, Some i)], [ORDER_BY_TIME_DESC, LIMIT n])"
  by (simp add: parse_selects_def)

lemma date_sub_sample:
  "date_sub half_past_noon (HOUR 1) =
     \<lparr>year = 2024, month = 6, day = 1, hour = 11, minute = 30, second = 0\<rparr>"
  "date_sub half_past_noon (HOUR (Suc 0)) =
     \<lparr>year = 2024, month = 6, day = 1, hour = 11, minute = 30, second = 0\<rparr>"
  by (simp_all add: half_past_noon_def)

lemma time_sample_row_0:
  "time (sample_row 0) = \<lparr>year = 2024, month = 1, day = 1, hour = 0, minute = 0, second = 0\<rparr>"
  by (simp add: sample_row_def)

text \<open>
  Claim C6. Two shards, the older one holding a strike of 1 January 2024 and the newer one
  a strike of 1 June 2024 at noon, read at half past noon of that day with the window
  \<^verbatim>\<open>Last Hour\<close>: the \<^verbatim>\<open>WHERE\<close> clause that \<^verbatim>\<open>main\<close> appends to the joined text
  belongs to the last \<^verbatim>\<open>SELECT\<close> only, and the row of January, which is five months
  older than the window, is returned with the other.
\<close>

theorem recent_data_time_window:
  "fst (recent_data half_past_noon Last_Hour
          (store_of [(''lightning_data_20240101_000000'', [sample_row 0]),
                     (''lightning_data_20240601_000000'', [recent_row])]))
     = Some [recent_row, sample_row 0] \<and>
   \<not> time_key (date_sub half_past_noon (HOUR 1)) \<le> time_key (time (sample_row 0))"
  by (simp add: recent_data_def store_of_def connect_db_def request_def show_tables_like_def
        sql_like_any build_query_sample parse_sample execute_query_def run_query_def
        run_select_def and_then_def date_sub_sample time_sample_row_0 time_key_def
        order_by_time_desc_def recent_row_def close_def del: date_sub.simps)










lemma insert_ignore_up:
  "uptime w = None \<Longrightarrow> map_of (session w) t = Some rows \<Longrightarrow> sql_row E p = Some x \<Longrightarrow>
   insert_ignore E t p w =
     (if unique_strike x \<in> set (map unique_strike rows) then (Inr 0, w)
      else (Inr 1, w\<lparr>session := put_rows t (rows @ [x]) (session w)\<rparr>))"
  by (simp add: insert_ignore_def request_up)

lemma map_of_put_rows_other: "u \<noteq> t \<Longrightarrow> map_of (put_rows t rows s) u = map_of s u"
  by (induction s) (auto simp: put_rows_def)

lemma map_of_put_rows_same: "map_of s t = Some old \<Longrightarrow> map_of (put_rows t rows s) t = Some rows"
  by (induction s) (auto simp: put_rows_def split: if_splits)

lemma map_of_put_rows:
  "map_of s t = Some old \<Longrightarrow> map_of (put_rows t rows s) = (map_of s)(t \<mapsto> rows)"
  by (rule ext) (simp add: map_of_put_rows_other map_of_put_rows_same)

lemma names_put_rows: "map fst (put_rows t rows s) = map fst s"
  by (induction s) (auto simp: put_rows_def)

lemma insert_loop_hit:
  "stored_row E r = Some x \<Longrightarrow> unique_strike x \<in> set (map unique_strike rows) \<Longrightarrow>
   insert_loop E (r # recs) (rows, new) = insert_loop E recs (rows, new)"
  by simp

lemma insert_loop_miss:
  "stored_row E r = Some x \<Longrightarrow> unique_strike x \<notin> set (map unique_strike rows) \<Longrightarrow>
   insert_loop E (r # recs) (rows, new) = insert_loop E recs (rows @ [x], new @ [r])"
  by simp

lemma insert_records_hit:
  "uptime w = None \<Longrightarrow> map_of (session w) t = Some rows \<Longrightarrow>
   bind_params E r = Inr p \<Longrightarrow> sql_row E p = Some x \<Longrightarrow>
   unique_strike x \<in> set (map unique_strike rows) \<Longrightarrow>
   insert_records E t (r # recs) new w = insert_records E t recs new w"
  by (simp add: insert_ignore_up)

lemma insert_records_miss:
  "uptime w = None \<Longrightarrow> map_of (session w) t = Some rows \<Longrightarrow>
   bind_params E r = Inr p \<Longrightarrow> sql_row E p = Some x \<Longrightarrow>
   unique_strike x \<notin> set (map unique_strike rows) \<Longrightarrow>
   insert_records E t (r # recs) new w =
     insert_records E t recs (new @ [r]) (w\<lparr>session := put_rows t (rows @ [x]) (session w)\<rparr>)"
  by (simp add: insert_ignore_up)

lemma insert_records_up:
  assumes "uptime w = None" and "map_of (session w) t = Some rows"
    and "\<forall>r\<in>set recs. stored_row E r \<noteq> None"
  shows "\<exists>w'. insert_records E t recs new w = ((None, snd (insert_loop E recs (rows, new))), w') \<and>
              uptime w' = None \<and> durable w' = durable w \<and>
              map_of (session w') = (map_of (session w))(t \<mapsto> fst (insert_loop E recs (rows, new))) \<and>
              map fst (session w') = map fst (session w)"
  using assms
proof (induction recs arbitrary: w rows new)
  case Nil
  then show ?case by (auto simp: fun_eq_iff)
next
  case (Cons r recs)
  from Cons.prems(3) obtain p x where p: "bind_params E r = Inr p" and x: "sql_row E p = Some x"
    by (auto simp: stored_row_def split: sum.splits)
  then have sr: "stored_row E r = Some x" by (simp add: stored_row_def)
  have rest: "\<forall>r\<in>set recs. stored_row E r \<noteq> None" using Cons.prems(3) by simp
  show ?case
  proof (cases "unique_strike x \<in> set (map unique_strike rows)")
    case True
    show ?thesis
      unfolding insert_loop_hit[OF sr True] insert_records_hit[OF Cons.prems(1,2) p x True]
      by (rule Cons.IH[OF Cons.prems(1,2) rest])
  next
    case False
    let ?w1 = "w\<lparr>session := put_rows t (rows @ [x]) (session w)\<rparr>"
    have u1: "uptime ?w1 = None" using Cons.prems(1) by simp
    have m1: "map_of (session ?w1) t = Some (rows @ [x])"
      using map_of_put_rows[OF Cons.prems(2), of "rows @ [x]"] by simp
    from Cons.IH[OF u1 m1 rest, of "new @ [r]"] obtain w' where
      w': "insert_records E t recs (new @ [r]) ?w1 =
            ((None, snd (insert_loop E recs (rows @ [x], new @ [r]))), w')"
      "uptime w' = None" "durable w' = durable ?w1"
      "map_of (session w') = (map_of (session ?w1))(t \<mapsto> fst (insert_loop E recs (rows @ [x], new @ [r])))"
      "map fst (session w') = map fst (session ?w1)"
      by blast
    have m: "map_of (session w') =
        (map_of (session w))(t \<mapsto> fst (insert_loop E recs (rows @ [x], new @ [r])))"
      using w'(4) map_of_put_rows[OF Cons.prems(2), of "rows @ [x]"] by simp
    show ?thesis
      unfolding insert_loop_miss[OF sr False] insert_records_miss[OF Cons.prems(1,2) p x False]
      using w'(1,2,3,5) m by (auto simp: names_put_rows fun_eq_iff)
  qed
qed

lemma sql_like_nonempty: "sql_like ''lightning_data%'' t \<Longrightarrow> t \<noteq> []"
  by (cases t) simp_all

lemma map_of_table_rows: "t \<in> set (map fst s) \<Longrightarrow> map_of s t = Some (table_rows s t)"
  by (cases "map_of s t") (auto simp: table_rows_def map_of_eq_None_iff)

lemma with_table_listed: "t \<in> set (map fst (with_table t s))"
  by (simp add: with_table_def)

lemma with_table_present: "t \<in> set (map fst s) \<Longrightarrow> with_table t s = s"
  by (simp add: with_table_def)

lemma find_in_set: "find P xs = Some x \<Longrightarrow> x \<in> set xs \<and> P x"
  by (induction xs) (auto split: if_splits)

lemma get_active_table_connected:
  assumes up: "uptime w = None" and sync: "session w = durable w"
    and act: "fst (get_active_table clk w) = Some t"
  shows "get_active_table clk w =
           (Some t, w\<lparr>durable := with_table t (durable w), session := with_table t (durable w)\<rparr>) \<and>
         t \<noteq> [] \<and>
         (t \<in> set (shard_names (durable w)) \<and> has_room (durable w) t \<or>
          t = new_shard_name clk \<and> (\<forall>u\<in>set (shard_names (durable w)). \<not> has_room (durable w) u))"
proof (cases "find (has_room (durable w)) (rev (sort (shard_names (durable w))))")
  case None
  with act have t: "t = new_shard_name clk" by (simp add: get_active_table_up[OF up] sync)
  have "t \<noteq> []" unfolding t by (simp add: new_shard_name_def)
  moreover have "\<forall>u\<in>set (shard_names (durable w)). \<not> has_room (durable w) u"
    using None by (auto simp: find_None_iff)
  ultimately show ?thesis using None t by (simp add: get_active_table_up[OF up] sync)
next
  case (Some u)
  with act have t: "u = t" by (simp add: get_active_table_up[OF up] sync)
  from find_in_set[OF Some] t
  have in_names: "t \<in> set (shard_names (durable w))" and room: "has_room (durable w) t" by simp_all
  then have "t \<in> set (map fst (durable w))" by (auto simp: shard_names_def)
  then have wt: "with_table t (durable w) = durable w" by (rule with_table_present)
  have "sql_like ''lightning_data%'' t" using in_names by (simp add: shard_names_def)
  then have ne: "t \<noteq> []" by (rule sql_like_nonempty)
  have "w\<lparr>durable := durable w, session := durable w\<rparr> = w" using sync by simp
  with Some t ne in_names room show ?thesis
    by (simp add: get_active_table_up[OF up] sync wt)
qed

lemma push_data_to_db_up:
  assumes up: "uptime w = None" and conv: "\<forall>r\<in>set recs. stored_row E r \<noteq> None"
    and act: "fst (get_active_table clk (snd (connect_db w))) = Some t"
  shows "fst (push_data_to_db E clk recs w) =
           Inr (snd (insert_loop E recs (table_rows (durable w) t, []))) \<and>
         table_rows (durable (snd (push_data_to_db E clk recs w))) t =
           fst (insert_loop E recs (table_rows (durable w) t, [])) \<and>
         (\<forall>u. u \<noteq> t \<longrightarrow> table_rows (durable (snd (push_data_to_db E clk recs w))) u =
                        table_rows (durable w) u) \<and>
         map fst (durable (snd (push_data_to_db E clk recs w))) = map fst (with_table t (durable w)) \<and>
         uptime (snd (push_data_to_db E clk recs w)) = None \<and>
         session (snd (push_data_to_db E clk recs w)) = durable (snd (push_data_to_db E clk recs w))"
proof -
  let ?w1 = "w\<lparr>session := durable w\<rparr>"
  let ?s = "with_table t (durable w)"
  let ?w2 = "?w1\<lparr>durable := ?s, session := ?s\<rparr>"
  let ?rows = "table_rows (durable w) t"
  have c: "connect_db w = (True, ?w1)" using up by (rule connect_db_up)
  have u1: "uptime ?w1 = None" and s1: "session ?w1 = durable ?w1" using up by simp_all
  from act c have act1: "fst (get_active_table clk ?w1) = Some t" by simp
  from get_active_table_connected[OF u1 s1 act1]
  have g: "get_active_table clk ?w1 = (Some t, ?w2)" and ne: "t \<noteq> []" by simp_all
  have u2: "uptime ?w2 = None" using up by simp
  have m2: "map_of (session ?w2) t = Some ?rows"
    using map_of_table_rows[OF with_table_listed, of t "durable w"]
    by (simp add: table_rows_with_table)
  from insert_records_up[OF u2 m2 conv, of "[]"] obtain w3 where
    ir: "insert_records E t recs [] ?w2 = ((None, snd (insert_loop E recs (?rows, []))), w3)"
    and u3: "uptime w3 = None"
    and m3: "map_of (session w3) = (map_of ?s)(t \<mapsto> fst (insert_loop E recs (?rows, [])))"
    and n3: "map fst (session w3) = map fst ?s"
    by auto
  have p: "push_data_to_db E clk recs w =
             (Inr (snd (insert_loop E recs (?rows, []))),
              w3\<lparr>durable := session w3, session := session w3\<rparr>)"
    using ir by (simp add: push_data_to_db_def c g ne commit_up[OF u3] close_def)
  have other: "table_rows (session w3) u = table_rows (durable w) u" if "u \<noteq> t" for u
    using that m3 table_rows_with_table[of t "durable w" u] by (simp add: table_rows_def)
  have same: "table_rows (session w3) t = fst (insert_loop E recs (?rows, []))"
    using m3 by (simp add: table_rows_def)
  show ?thesis unfolding p using other same n3 u3 by simp
qed

lemma insert_loop_append:
  "\<forall>r\<in>set a. stored_row E r \<noteq> None \<Longrightarrow>
   insert_loop E (a @ b) acc = insert_loop E b (insert_loop E a acc)"
  by (induction a arbitrary: acc) (auto split: option.splits)

lemma insert_loop_other_keys:
  "\<forall>r\<in>set recs. strike_key E r \<noteq> Some k \<Longrightarrow>
   filter (\<lambda>x. unique_strike x = k) (fst (insert_loop E recs acc)) =
     filter (\<lambda>x. unique_strike x = k) (fst acc) \<and>
   filter (\<lambda>r. strike_key E r = Some k) (snd (insert_loop E recs acc)) =
     filter (\<lambda>r. strike_key E r = Some k) (snd acc)"
proof (induction recs arbitrary: acc)
  case Nil
  then show ?case by simp
next
  case (Cons r recs)
  have rest: "\<forall>r\<in>set recs. strike_key E r \<noteq> Some k" using Cons.prems by simp
  show ?case
  proof (cases "stored_row E r")
    case None
    then show ?thesis by simp
  next
    case (Some x)
    with Cons.prems have k: "unique_strike x \<noteq> k" by (simp add: strike_key_def)
    have r: "strike_key E r \<noteq> Some k" using Cons.prems by simp
    show ?thesis
    proof (cases "unique_strike x \<in> set (map unique_strike (fst acc))")
      case True
      with Some Cons.IH[OF rest, of acc] show ?thesis by simp
    next
      case False
      with Some Cons.IH[OF rest, of "(fst acc @ [x], snd acc @ [r])"] k r show ?thesis by simp
    qed
  qed
qed

lemma insert_loop_known_key:
  "k \<in> set (map unique_strike (fst acc)) \<Longrightarrow>
   filter (\<lambda>x. unique_strike x = k) (fst (insert_loop E recs acc)) =
     filter (\<lambda>x. unique_strike x = k) (fst acc) \<and>
   filter (\<lambda>r. strike_key E r = Some k) (snd (insert_loop E recs acc)) =
     filter (\<lambda>r. strike_key E r = Some k) (snd acc)"
proof (induction recs arbitrary: acc)
  case Nil
  then show ?case by simp
next
  case (Cons r recs)
  show ?case
  proof (cases "stored_row E r")
    case None
    then show ?thesis by simp
  next
    case (Some x)
    show ?thesis
    proof (cases "unique_strike x \<in> set (map unique_strike (fst acc))")
      case True
      with Some Cons.IH[OF Cons.prems] show ?thesis by simp
    next
      case False
      with Cons.prems have k: "unique_strike x \<noteq> k" by auto
      then have r: "strike_key E r \<noteq> Some k" using Some by (simp add: strike_key_def)
      have "k \<in> set (map unique_strike (fst (fst acc @ [x], snd acc @ [r])))"
        using Cons.prems by simp
      from Cons.IH[OF this] False Some k r show ?thesis by simp
    qed
  qed
qed

lemma insert_loop_distinct:
  "distinct (map unique_strike (fst acc)) \<Longrightarrow>
   distinct (map unique_strike (fst (insert_loop E recs acc)))"
  by (induction recs arbitrary: acc) (auto split: option.splits)

lemma insert_loop_keeps:
  "set (fst acc) \<subseteq> set (fst (insert_loop E recs acc))"
proof (induction recs arbitrary: acc)
  case Nil
  then show ?case by simp
next
  case (Cons r recs)
  show ?case
  proof (cases "stored_row E r")
    case None
    then show ?thesis by simp
  next
    case (Some x)
    show ?thesis
    proof (cases "unique_strike x \<in> set (map unique_strike (fst acc))")
      case True
      with Some Cons.IH[of acc] show ?thesis by simp
    next
      case False
      with Some Cons.IH[of "(fst acc @ [x], snd acc @ [r])"] show ?thesis by auto
    qed
  qed
qed

lemma insert_loop_all_keys:
  "\<forall>r\<in>set recs. stored_row E r \<noteq> None \<Longrightarrow> r \<in> set recs \<Longrightarrow> stored_row E r = Some x \<Longrightarrow>
   unique_strike x \<in> set (map unique_strike (fst (insert_loop E recs acc)))"
proof (induction recs arbitrary: acc)
  case Nil
  then show ?case by simp
next
  case (Cons a recs)
  from Cons.prems(1) obtain y where y: "stored_row E a = Some y" by auto
  have rest: "\<forall>r\<in>set recs. stored_row E r \<noteq> None" using Cons.prems(1) by simp
  let ?acc' = "if unique_strike y \<in> set (map unique_strike (fst acc)) then acc
               else (fst acc @ [y], snd acc @ [a])"
  have step: "insert_loop E (a # recs) acc = insert_loop E recs ?acc'" using y by simp
  have ky: "unique_strike y \<in> unique_strike ` set (fst ?acc')" by simp
  have mono: "unique_strike ` set (fst ?acc') \<subseteq> unique_strike ` set (fst (insert_loop E recs ?acc'))"
    by (rule image_mono) (rule insert_loop_keeps)
  show ?case
  proof (cases "r = a")
    case True
    with Cons.prems(3) y have "x = y" by simp
    with ky mono have "unique_strike x \<in> unique_strike ` set (fst (insert_loop E recs ?acc'))"
      by blast
    then show ?thesis unfolding step by simp
  next
    case False
    with Cons.prems(2) have "r \<in> set recs" by simp
    from Cons.IH[OF rest this Cons.prems(3)] show ?thesis unfolding step .
  qed
qed

lemma count_distinct_key:
  "distinct (map f xs) \<Longrightarrow> k \<in> set (map f xs) \<Longrightarrow> length (filter (\<lambda>x. f x = k) xs) = 1"
proof (induction xs)
  case Nil
  then show ?case by simp
next
  case (Cons a xs)
  show ?case
  proof (cases "f a = k")
    case True
    from Cons.prems(1) have "f a \<notin> f ` set xs" by simp
    with True have "\<forall>x\<in>set xs. f x \<noteq> k" by blast
    then have "filter (\<lambda>x. f x = k) xs = []" by (simp add: filter_empty_conv)
    with True show ?thesis by simp
  next
    case False
    with Cons show ?thesis by auto
  qed
qed

lemma absent_key_filter:
  "k \<notin> set (map f xs) \<Longrightarrow> filter (\<lambda>x. f x = k) xs = []"
  by (auto simp: filter_empty_conv)

lemma insert_loop_first_wins:
  assumes conv: "\<forall>r\<in>set pre. stored_row E r \<noteq> None"
    and x1: "stored_row E r1 = Some x1"
    and first: "\<forall>r\<in>set pre. strike_key E r \<noteq> Some (unique_strike x1)"
    and new: "unique_strike x1 \<notin> set (map unique_strike rows)"
  shows "filter (\<lambda>x. unique_strike x = unique_strike x1)
           (fst (insert_loop E (pre @ r1 # rest) (rows, []))) = [x1] \<and>
         filter (\<lambda>r. strike_key E r = Some (unique_strike x1))
           (snd (insert_loop E (pre @ r1 # rest) (rows, []))) = [r1]"
proof -
  let ?k = "unique_strike x1"
  let ?p = "insert_loop E pre (rows, [])"
  from insert_loop_other_keys[OF first, of "(rows, [])"] absent_key_filter[OF new]
  have p1: "filter (\<lambda>x. unique_strike x = ?k) (fst ?p) = []"
    and p2: "filter (\<lambda>r. strike_key E r = Some ?k) (snd ?p) = []" by simp_all
  from p1 have miss: "?k \<notin> set (map unique_strike (fst ?p))"
    by (auto simp: filter_empty_conv)
  have k1: "strike_key E r1 = Some ?k" using x1 by (simp add: strike_key_def)
  let ?q = "(fst ?p @ [x1], snd ?p @ [r1])"
  have step: "insert_loop E (pre @ r1 # rest) (rows, []) = insert_loop E rest ?q"
    using insert_loop_append[OF conv, of "r1 # rest" "(rows, [])"] x1 miss by simp
  have "?k \<in> set (map unique_strike (fst ?q))" by simp
  from insert_loop_known_key[OF this, of E rest] p1 p2 k1
  show ?thesis unfolding step by simp
qed

text \<open>
  Claim C4. The store is reachable and every record of the batch converts, so that no
  statement raises; \<open>t\<close> is the shard the Table Router returns on the connection of the
  call. The batch holds a record \<open>r1\<close> and, after it, a record \<open>r2\<close> whose stored rows
  \<open>x1\<close> and \<open>x2\<close> have the same latitude, longitude and time. The call returns a list, and
  afterwards the shard holds exactly one row with that triple, provided the rows it held
  before had distinct triples. When the triple is new to the shard and \<open>r1\<close> is the first
  record of the batch with it, that row is \<open>x1\<close>, the row of the first record, \<open>r1\<close> is
  the one record with that triple in the returned list, and \<open>r2\<close> is skipped: its row, if
  it differs from \<open>x1\<close>, is not stored, and \<open>r2\<close>, if it differs from \<open>r1\<close>, is not
  returned.
\<close>

theorem push_data_to_db_first_wins:
  assumes "uptime w = None"
      and "\<forall>r\<in>set (pre @ r1 # mid @ r2 # post). stored_row E r \<noteq> None"
      and "fst (get_active_table clk (snd (connect_db w))) = Some t"
      and "stored_row E r1 = Some x1"
      and "stored_row E r2 = Some x2"
      and "unique_strike x1 = unique_strike x2"
  shows "\<exists>res. fst (push_data_to_db E clk (pre @ r1 # mid @ r2 # post) w) = Inr res \<and>
           (distinct (map unique_strike (table_rows (durable w) t)) \<longrightarrow>
              length (filter (\<lambda>x. unique_strike x = unique_strike x1)
                (table_rows (durable (snd (push_data_to_db E clk (pre @ r1 # mid @ r2 # post) w))) t))
              = 1) \<and>
           ((\<forall>r\<in>set pre. strike_key E r \<noteq> Some (unique_strike x1)) \<and>
            unique_strike x1 \<notin> set (map unique_strike (table_rows (durable w) t)) \<longrightarrow>
              filter (\<lambda>x. unique_strike x = unique_strike x1)
                (table_rows (durable (snd (push_data_to_db E clk (pre @ r1 # mid @ r2 # post) w))) t)
              = [x1] \<and>
              filter (\<lambda>r. strike_key E r = Some (unique_strike x1)) res = [r1] \<and>
              (x2 \<noteq> x1 \<longrightarrow>
                 x2 \<notin> set (table_rows
                   (durable (snd (push_data_to_db E clk (pre @ r1 # mid @ r2 # post) w))) t)) \<and>
              (r2 \<noteq> r1 \<longrightarrow> r2 \<notin> set res))"
proof -
  let ?recs = "pre @ r1 # mid @ r2 # post"
  let ?rows = "table_rows (durable w) t"
  let ?loop = "insert_loop E ?recs (?rows, [])"
  let ?k = "unique_strike x1"
  note p = push_data_to_db_up[OF assms(1,2,3)]
  have res: "fst (push_data_to_db E clk ?recs w) = Inr (snd ?loop)" using p by simp
  have rows: "table_rows (durable (snd (push_data_to_db E clk ?recs w))) t = fst ?loop"
    using p by simp
  have one: "length (filter (\<lambda>x. unique_strike x = ?k) (fst ?loop)) = 1"
    if d: "distinct (map unique_strike ?rows)"
  proof (rule count_distinct_key)
    show "distinct (map unique_strike (fst ?loop))"
      using d by (intro insert_loop_distinct) simp
    show "?k \<in> set (map unique_strike (fst ?loop))"
      by (rule insert_loop_all_keys[OF assms(2) _ assms(4)]) simp
  qed
  have first: "filter (\<lambda>x. unique_strike x = ?k) (fst ?loop) = [x1] \<and>
               filter (\<lambda>r. strike_key E r = Some ?k) (snd ?loop) = [r1] \<and>
               (x2 \<noteq> x1 \<longrightarrow> x2 \<notin> set (fst ?loop)) \<and>
               (r2 \<noteq> r1 \<longrightarrow> r2 \<notin> set (snd ?loop))"
    if f: "\<forall>r\<in>set pre. strike_key E r \<noteq> Some ?k"
      and n: "?k \<notin> set (map unique_strike ?rows)"
  proof -
    have conv: "\<forall>r\<in>set pre. stored_row E r \<noteq> None" using assms(2) by simp
    from insert_loop_first_wins[OF conv assms(4) f n, of "mid @ r2 # post"]
    have a: "filter (\<lambda>x. unique_strike x = ?k) (fst ?loop) = [x1]"
      and b: "filter (\<lambda>r. strike_key E r = Some ?k) (snd ?loop) = [r1]" by simp_all
    have c: "x2 \<notin> set (fst ?loop)" if "x2 \<noteq> x1"
    proof
      assume "x2 \<in> set (fst ?loop)"
      with assms(6) have "x2 \<in> set (filter (\<lambda>x. unique_strike x = ?k) (fst ?loop))" by simp
      with a that show False by simp
    qed
    have d: "r2 \<notin> set (snd ?loop)" if "r2 \<noteq> r1"
    proof
      assume "r2 \<in> set (snd ?loop)"
      moreover have "strike_key E r2 = Some ?k" using assms(5,6) by (simp add: strike_key_def)
      ultimately have "r2 \<in> set (filter (\<lambda>r. strike_key E r = Some ?k) (snd ?loop))" by simp
      with b that show False by simp
    qed
    from a b c d show ?thesis by blast
  qed
  show ?thesis unfolding res rows using one first by blast
qed

lemma stored_row_samples:
  "stored_row ref_extern (strike ''26'' ''80'' ''2024-06-01 12:00:00'' ''5'') = Some recent_row"
  "stored_row ref_extern (strike ''26'' ''80'' ''2024-06-01 12:00:00'' ''9'') =
     Some (recent_row\<lparr>number_of_sensors := 9\<rparr>)"
  "stored_row ref_extern (strike ''26.5'' ''80'' ''2024-06-01 12:00:01'' ''5'') =
     Some \<lparr>latitude = 53 / 2, longitude = 80,
           time = \<lparr>year = 2024, month = 6, day = 1, hour = 12, minute = 0, second = 1\<rparr>,
           flash_type = ''G'', peak_current = - (25 / 2), ic_height = 0, number_of_sensors = 5\<rparr>"
  by (simp_all add: stored_row_def
        bind_params_strike[OF parse_decimal_samples(1) parse_decimal_samples(2)
          parse_datetime_samples(1) ref_int_samples(1)]
        bind_params_strike[OF parse_decimal_samples(1) parse_decimal_samples(2)
          parse_datetime_samples(1) ref_int_samples(2)]
        strike_26_5 row_26 row_26_5 recent_row_def)

lemma one_shard:
  "shard_names [(''lightning_data_20240101_000000'', a)] = [''lightning_data_20240101_000000'']"
  "table_rows [(''lightning_data_20240101_000000'', a)] ''lightning_data_20240101_000000'' = a"
  by (simp_all add: shard_names_def table_rows_def sql_like_any)

lemma one_shard_active:
  "length a < 50000 \<Longrightarrow>
   fst (get_active_table clk (snd (connect_db (store_of [(''lightning_data_20240101_000000'', a)]))))
     = Some ''lightning_data_20240101_000000''"
  by (simp add: connect_db_up get_active_table_up store_of_def one_shard has_room_def)

text \<open>
  Two records of the same strike that differ in the number of sensors, written to a shard
  that holds one older row: the first is stored and returned, the second is skipped.
\<close>

theorem push_data_to_db_first_wins_witness:
  "fst (push_data_to_db ref_extern sample_clock
          [strike ''26'' ''80'' ''2024-06-01 12:00:00'' ''5'',
           strike ''26'' ''80'' ''2024-06-01 12:00:00'' ''9'']
          (store_of [(''lightning_data_20240101_000000'', [sample_row 0])]))
     = Inr [strike ''26'' ''80'' ''2024-06-01 12:00:00'' ''5''] \<and>
   filter (\<lambda>x. unique_strike x = unique_strike recent_row)
     (table_rows (durable (snd (push_data_to_db ref_extern sample_clock
          [strike ''26'' ''80'' ''2024-06-01 12:00:00'' ''5'',
           strike ''26'' ''80'' ''2024-06-01 12:00:00'' ''9'']
          (store_of [(''lightning_data_20240101_000000'', [sample_row 0])]))))
        ''lightning_data_20240101_000000'')
     = [recent_row]"
proof -
  let ?r1 = "strike ''26'' ''80'' ''2024-06-01 12:00:00'' ''5''"
  let ?r2 = "strike ''26'' ''80'' ''2024-06-01 12:00:00'' ''9''"
  let ?t = "''lightning_data_20240101_000000''"
  let ?w = "store_of [(?t, [sample_row 0])]"
  have up: "uptime ?w = None" by (simp add: store_of_def)
  have conv: "\<forall>r\<in>set ([] @ ?r1 # [] @ ?r2 # []). stored_row ref_extern r \<noteq> None"
    by (simp add: stored_row_samples)
  have act: "fst (get_active_table sample_clock (snd (connect_db ?w))) = Some ?t"
    by (rule one_shard_active) simp
  have key: "unique_strike recent_row = unique_strike (recent_row\<lparr>number_of_sensors := 9\<rparr>)"
    by (simp add: unique_strike_def)
  have new: "(\<forall>r\<in>set []. strike_key ref_extern r \<noteq> Some (unique_strike recent_row)) \<and>
             unique_strike recent_row \<notin> set (map unique_strike (table_rows (durable ?w) ?t))"
    by (simp add: store_of_def one_shard unique_strike_def recent_row_def sample_row_def)
  from push_data_to_db_first_wins[OF up conv act stored_row_samples(1) stored_row_samples(2) key]
  obtain res where
    res: "fst (push_data_to_db ref_extern sample_clock ([] @ ?r1 # [] @ ?r2 # []) ?w) = Inr res"
    and imp: "(\<forall>r\<in>set []. strike_key ref_extern r \<noteq> Some (unique_strike recent_row)) \<and>
            unique_strike recent_row \<notin> set (map unique_strike (table_rows (durable ?w) ?t)) \<longrightarrow>
            filter (\<lambda>x. unique_strike x = unique_strike recent_row)
              (table_rows (durable (snd (push_data_to_db ref_extern sample_clock
                 ([] @ ?r1 # [] @ ?r2 # []) ?w))) ?t) = [recent_row] \<and>
            filter (\<lambda>r. strike_key ref_extern r = Some (unique_strike recent_row)) res = [?r1] \<and>
            (recent_row\<lparr>number_of_sensors := 9\<rparr> \<noteq> recent_row \<longrightarrow>
               recent_row\<lparr>number_of_sensors := 9\<rparr> \<notin> set (table_rows (durable (snd
                 (push_data_to_db ref_extern sample_clock ([] @ ?r1 # [] @ ?r2 # []) ?w))) ?t)) \<and>
            (?r2 \<noteq> ?r1 \<longrightarrow> ?r2 \<notin> set res)"
    by blast
  from mp[OF imp new]
  have rows: "filter (\<lambda>x. unique_strike x = unique_strike recent_row)
              (table_rows (durable (snd (push_data_to_db ref_extern sample_clock
                 ([] @ ?r1 # [] @ ?r2 # []) ?w))) ?t) = [recent_row]"
    by (rule conjunct1)
  have run: "fst (push_data_to_db ref_extern sample_clock [?r1, ?r2] ?w) = Inr [?r1]"
    using push_data_to_db_up[OF up conv act]
    by (simp add: store_of_def one_shard stored_row_samples unique_strike_def recent_row_def
          sample_row_def)
  from run rows show ?thesis by simp
qed







lemma full_shard_active:
  "50000 \<le> length a \<Longrightarrow>
   fst (get_active_table clk (snd (connect_db (store_of [(''lightning_data_20240101_000000'', a)]))))
     = Some (new_shard_name clk)"
  by (simp add: connect_db_up get_active_table_up store_of_def one_shard has_room_def)




end
